theory Spec2Isabelle
  imports Main "HOL-Library.Sublist" "HOL-Library.Char_ord" "HOL-Library.List_Lexorder"
    "HOL-Library.Multiset"
begin

section \<open>Errors\<close>

text \<open>
  What the code can throw: the runtime's \<open>TypeError\<close> and \<open>RangeError\<close>, a failure of a
  crawler (browser or navigation), and the two failures of the database driver, on
  acquiring a client and on a statement.
\<close>

datatype js_error = TypeError | RangeError | CrawlError | ConnectError | QueryError

section \<open>Job records and the jobs table\<close>

text \<open>
  A job object as the crawlers hand it to \<open>saveJobs\<close>. A JavaScript object may lack any
  property, so every field is optional: \<open>None\<close> stands for \<open>undefined\<close> (or \<open>null\<close>).
  A string is a sequence of code units below 256, the Latin-1 range; text with other
  characters is outside of what is modelled.
\<close>

record raw_job =
  title :: "string option"
  company :: "string option"
  experience :: "string option"
  location :: "string option"
  skills :: "string list option"
  salary :: "string option"
  link :: "string option"
  source :: "string option"
  postedDate :: "string option"
  scrapedDate :: "string option"

text \<open>
  The nine values bound to \<open>$1 .. $9\<close> of the INSERT statement. Only \<open>title\<close>, \<open>company\<close>
  and \<open>link\<close> are passed as they are and may therefore be NULL; the others get a default.
\<close>

record insert_params =
  p_title :: "string option"
  p_company :: "string option"
  p_experience :: string
  p_location :: string
  p_skills :: "string list"
  p_salary :: string
  p_link :: "string option"
  p_source :: string
  p_posted_date :: string

text \<open>
  A row of table \<open>jobs\<close>, with the columns the INSERT statement writes (the serial \<open>id\<close>,
  \<open>posted_date_original\<close> and \<open>created_at\<close> are filled by the database and read by no
  code path modelled here). The statement is the only writer of the table and binds a
  text to every column that would allow NULL, so the columns are plain texts.
\<close>

record job_row =
  col_title :: string
  col_company :: string
  col_experience :: string
  col_location :: string
  col_skills :: "string list"
  col_salary :: string
  col_link :: string
  col_source :: string
  col_posted_date :: string

text \<open>JavaScript's \<open>v || d\<close> on an optional string: \<open>undefined\<close> and \<open>''\<close> are falsy.\<close>

definition or_default :: "string option \<Rightarrow> string \<Rightarrow> string" where
  "or_default v d = (case v of None \<Rightarrow> d | Some s \<Rightarrow> if s = [] then d else s)"

text \<open>
  The parameter array of \<open>saveJobs\<close>. An array is truthy even when empty, so
  \<open>job.skills || []\<close> only replaces a missing property. \<open>clock\<close> is the text the driver
  writes for \<open>new Date()\<close>.
\<close>

definition job_params :: "string \<Rightarrow> raw_job \<Rightarrow> insert_params" where
  "job_params clock job =
     \<lparr>p_title = title job,
      p_company = company job,
      p_experience = or_default (experience job) ''N/A'',
      p_location = or_default (location job) ''N/A'',
      p_skills = (case skills job of None \<Rightarrow> [] | Some ss \<Rightarrow> ss),
      p_salary = or_default (salary job) ''Not specified'',
      p_link = link job,
      p_source = or_default (source job) ''Unknown'',
      p_posted_date = or_default (postedDate job) clock\<rparr>"

section \<open>The database session\<close>

text \<open>
  One settled promise of \<open>Promise.allSettled\<close>: fulfilled with the statement's
  \<open>rowCount\<close>, or rejected.
\<close>

datatype settled = Fulfilled nat | Rejected

text \<open>
  A transaction in progress: the rows it sees, and whether a statement of it has failed
  in the database. PostgreSQL keeps a failed transaction open but rejects every later
  statement of it, and answers its COMMIT with a rollback.
\<close>

type_synonym txn = "job_row list \<times> bool"

definition new_row :: "string \<Rightarrow> string \<Rightarrow> string \<Rightarrow> insert_params \<Rightarrow> job_row" where
  "new_row t c l p =
     \<lparr>col_title = t, col_company = c, col_experience = p_experience p,
      col_location = p_location p, col_skills = p_skills p, col_salary = p_salary p,
      col_link = l, col_source = p_source p, col_posted_date = p_posted_date p\<rparr>"

text \<open>
  A text with the code unit 0 cannot be stored: PostgreSQL rejects a parameter that
  holds it, in whichever position.
\<close>

definition has_nul :: "string \<Rightarrow> bool" where
  "has_nul s = (CHR 0x00 \<in> set s)"

definition opt_has_nul :: "string option \<Rightarrow> bool" where
  "opt_has_nul v = (case v of None \<Rightarrow> False | Some s \<Rightarrow> has_nul s)"

definition binds_nul :: "insert_params \<Rightarrow> bool" where
  "binds_nul p =
     (opt_has_nul (p_title p) \<or> opt_has_nul (p_company p) \<or> has_nul (p_experience p) \<or>
      has_nul (p_location p) \<or> list_ex has_nul (p_skills p) \<or> has_nul (p_salary p) \<or>
      opt_has_nul (p_link p) \<or> has_nul (p_source p) \<or> has_nul (p_posted_date p))"

text \<open>
  \<open>INSERT INTO jobs (...) VALUES ($1 .. $9) ON CONFLICT (link) DO NOTHING\<close> against the
  schema of \<open>initializeDatabase\<close>: \<open>title\<close>, \<open>company\<close> and \<open>link\<close> are NOT NULL, \<open>link\<close> is
  UNIQUE. \<open>faulty\<close> says that the driver rejects the statement without running it, and
  \<open>refused\<close> that the database refuses it for a reason of its own (an index entry beyond
  the size it allows, a failure of the server). A statement the database rejects, for a
  NUL, for a NULL or on its own account, leaves the transaction failed.
\<close>

definition insert_stmt :: "bool \<Rightarrow> bool \<Rightarrow> insert_params \<Rightarrow> txn \<Rightarrow> settled \<times> txn" where
  "insert_stmt faulty refused p st =
     (case st of (rows, aborted) \<Rightarrow>
        if faulty \<or> aborted then (Rejected, st)
        else if refused \<or> binds_nul p then (Rejected, (rows, True))
        else (case p_title p of
                None \<Rightarrow> (Rejected, (rows, True))
              | Some t \<Rightarrow>
                 (case p_company p of
                    None \<Rightarrow> (Rejected, (rows, True))
                  | Some c \<Rightarrow>
                     (case p_link p of
                        None \<Rightarrow> (Rejected, (rows, True))
                      | Some l \<Rightarrow>
                          if l \<in> set (map col_link rows) then (Fulfilled 0, st)
                          else (Fulfilled 1, (rows @ [new_row t c l p], False))))))"

text \<open>
  The statements of \<open>jobs.map(job => client.query(...))\<close>: one connection runs them in
  the order of the batch. \<open>f i\<close> is the fault of the \<open>i\<close>-th statement and \<open>g i\<close> its
  refusal by the database.
\<close>

fun run_inserts ::
  "(nat \<Rightarrow> bool) \<Rightarrow> (nat \<Rightarrow> bool) \<Rightarrow> nat \<Rightarrow> insert_params list \<Rightarrow> txn \<Rightarrow> settled list \<times> txn" where
  "run_inserts f g i [] st = ([], st)"
| "run_inserts f g i (p # ps) st =
     (case insert_stmt (f i) (g i) p st of (r, st') \<Rightarrow>
        (case run_inserts f g (Suc i) ps st' of (rs, st'') \<Rightarrow> (r # rs, st'')))"

text \<open>
  What the surroundings decide: whether acquiring a client, BEGIN, the \<open>i\<close>-th INSERT,
  COMMIT or ROLLBACK is rejected by the driver (connection loss, timeout), whether the
  database refuses the \<open>i\<close>-th INSERT on its own account, and the clock.
\<close>

record db_env =
  connect_fails :: bool
  begin_fails :: bool
  insert_fails :: "nat \<Rightarrow> bool"
  insert_refused :: "nat \<Rightarrow> bool"
  commit_fails :: bool
  rollback_fails :: bool
  clock_text :: string

datatype db_op = Connect | Begin | Insert insert_params | Commit | Rollback | Release

datatype log_entry = LogSaved int int | LogSaveError

record counts =
  newJobs :: int
  duplicates :: int

text \<open>
  The result of a call of \<open>saveJobs\<close>: what it returns (\<open>Inl\<close> when it throws to its
  caller), the table afterwards, the operations it issued on the pool and the client,
  and its console output.
\<close>

record save_result =
  outcome :: "js_error + counts"
  db :: "job_row list"
  ops :: "db_op list"
  logs :: "log_entry list"

definition zero_counts :: counts where
  "zero_counts = \<lparr>newJobs = 0, duplicates = 0\<rparr>"

text \<open>
  The \<open>catch\<close> block with its \<open>finally\<close>: ROLLBACK is awaited first, so its failure leaves
  the block before anything is logged or returned.
\<close>

definition save_catch :: "db_env \<Rightarrow> job_row list \<Rightarrow> db_op list \<Rightarrow> save_result" where
  "save_catch env store issued =
     (if rollback_fails env
      then \<lparr>outcome = Inl QueryError, db = store, ops = issued @ [Rollback, Release], logs = []\<rparr>
      else \<lparr>outcome = Inr zero_counts, db = store, ops = issued @ [Rollback, Release],
            logs = [LogSaveError]\<rparr>)"

definition count_new :: "settled list \<Rightarrow> int" where
  "count_new results = int (length (filter (\<lambda>r. r = Fulfilled 1) results))"

definition saveJobs :: "db_env \<Rightarrow> job_row list \<Rightarrow> raw_job list option \<Rightarrow> save_result" where
  "saveJobs env store jobs =
     (case jobs of
        None \<Rightarrow> \<lparr>outcome = Inr zero_counts, db = store, ops = [], logs = []\<rparr>
      | Some js \<Rightarrow>
          if js = [] then \<lparr>outcome = Inr zero_counts, db = store, ops = [], logs = []\<rparr>
          else if connect_fails env
          then \<lparr>outcome = Inl ConnectError, db = store, ops = [Connect], logs = []\<rparr>
          else if begin_fails env then save_catch env store [Connect, Begin]
          else
            (let ps = map (job_params (clock_text env)) js;
                 issued = [Connect, Begin] @ map Insert ps @ [Commit]
             in case run_inserts (insert_fails env) (insert_refused env) 0 ps (store, False) of
                  (results, (rows, aborted)) \<Rightarrow>
                    if commit_fails env then save_catch env store issued
                    else
                      \<lparr>outcome = Inr \<lparr>newJobs = count_new results,
                                      duplicates = int (length js) - count_new results\<rparr>,
                       db = (if aborted then store else rows),
                       ops = issued @ [Release],
                       logs = [LogSaved (count_new results)
                                 (int (length js) - count_new results)]\<rparr>))"

section \<open>The runtime: strings\<close>

text \<open>
  The string functions of the runtime that the code calls, on code units below 256.
  White space, for \<open>trim\<close>, for \<open>parseInt\<close> and for the class \<open>\s\<close> of a regular expression
  alike, is tab, line feed, vertical tab, form feed, carriage return, space and the
  no-break space U+00A0. The digits of \<open>\d\<close> are the ASCII digits.
\<close>

definition is_space :: "char \<Rightarrow> bool" where
  "is_space c =
     (c \<in> set [CHR '' '', CHR 0x09, CHR 0x0A, CHR 0x0B, CHR 0x0C, CHR 0x0D, CHR 0xA0])"

definition is_digit :: "char \<Rightarrow> bool" where
  "is_digit c = (c \<in> set ''0123456789'')"

definition trim :: "string \<Rightarrow> string" where
  "trim s = rev (dropWhile is_space (rev (dropWhile is_space s)))"

text \<open>
  Lower case: the letters A to Z, and the capital letters of Latin-1, U+00C0 to U+00DE
  without the multiplication sign U+00D7, move up by 32.
\<close>

definition lower_char :: "char \<Rightarrow> char" where
  "lower_char c =
     (let n = of_char c :: nat
      in if (65 \<le> n \<and> n \<le> 90) \<or> (192 \<le> n \<and> n \<le> 222 \<and> n \<noteq> 215) then char_of (n + 32)
         else c)"

definition toLowerCase :: "string \<Rightarrow> string" where
  "toLowerCase s = map lower_char s"

text \<open>\<open>s.includes(sub)\<close>.\<close>

fun js_includes :: "string \<Rightarrow> string \<Rightarrow> bool" where
  "js_includes [] sub = (sub = [])"
| "js_includes (c # cs) sub = (prefix sub (c # cs) \<or> js_includes cs sub)"

definition digit_val :: "char \<Rightarrow> int" where
  "digit_val c = int (of_char c) - 48"

definition hex_val :: "char \<Rightarrow> int option" where
  "hex_val c =
     (let n = int (of_char c)
      in if 48 \<le> n \<and> n \<le> 57 then Some (n - 48)
         else if 97 \<le> n \<and> n \<le> 102 then Some (n - 87)
         else if 65 \<le> n \<and> n \<le> 70 then Some (n - 55)
         else None)"

definition digits_value :: "string \<Rightarrow> int" where
  "digits_value ds = foldl (\<lambda>a c. 10 * a + digit_val c) 0 ds"

definition hex_value :: "string \<Rightarrow> int" where
  "hex_value ds = foldl (\<lambda>a c. 16 * a + (case hex_val c of Some v \<Rightarrow> v | None \<Rightarrow> 0)) 0 ds"

definition parse_magnitude :: "string \<Rightarrow> int option" where
  "parse_magnitude s =
     (if prefix ''0x'' s \<or> prefix ''0X'' s
      then (let ds = takeWhile (\<lambda>c. hex_val c \<noteq> None) (drop 2 s)
            in if ds = [] then None else Some (hex_value ds))
      else (let ds = takeWhile is_digit s in if ds = [] then None else Some (digits_value ds)))"

text \<open>
  \<open>parseInt(s)\<close> without a radix: leading white space, a sign, then the longest run of
  digits (hexadecimal after \<open>0x\<close>). \<open>None\<close> is \<open>NaN\<close>. The value is the exact integer.
\<close>

definition parseInt :: "string \<Rightarrow> int option" where
  "parseInt s =
     (case dropWhile is_space s of
        [] \<Rightarrow> None
      | c # cs \<Rightarrow>
          if c = CHR ''-'' then map_option uminus (parse_magnitude cs)
          else if c = CHR ''+'' then parse_magnitude cs
          else parse_magnitude (c # cs))"

text \<open>\<open>parseInt(s) || 1\<close>: \<open>NaN\<close> and \<open>0\<close> are falsy.\<close>

definition or_one :: "int option \<Rightarrow> int" where
  "or_one v = (case v of None \<Rightarrow> 1 | Some n \<Rightarrow> if n = 0 then 1 else n)"

text \<open>
  \<open>s.replace(/a|b|c/g, '')\<close> for literal, non-empty alternatives: scanning from the
  left, the first alternative that matches at a position is cut out. The counter is the
  number of characters of the current match that are still to be skipped.
\<close>

fun strip_from :: "nat \<Rightarrow> string list \<Rightarrow> string \<Rightarrow> string" where
  "strip_from k alts [] = []"
| "strip_from (Suc k) alts (c # cs) = strip_from k alts cs"
| "strip_from 0 alts (c # cs) =
     (case List.find (\<lambda>a. prefix a (c # cs)) alts of
        Some a \<Rightarrow> strip_from (length a - 1) alts cs
      | None \<Rightarrow> c # strip_from 0 alts cs)"

definition remove_all :: "string list \<Rightarrow> string \<Rightarrow> string" where
  "remove_all alts s = strip_from 0 alts s"

text \<open>
  \<open>s.match(/(\d+)\s+unit/)\<close>: the digits captured by the leftmost match. At a given
  start the match is forced: all digits there, at least one white space, then the unit.
\<close>

definition match_at :: "string \<Rightarrow> string \<Rightarrow> string option" where
  "match_at unit s =
     (let ds = takeWhile is_digit s;
          rest = dropWhile is_digit s
      in if ds \<noteq> [] \<and> takeWhile is_space rest \<noteq> [] \<and> prefix unit (dropWhile is_space rest)
         then Some ds else None)"

fun match_unit :: "string \<Rightarrow> string \<Rightarrow> string option" where
  "match_unit unit [] = None"
| "match_unit unit (c # cs) =
     (case match_at unit (c # cs) of Some ds \<Rightarrow> Some ds | None \<Rightarrow> match_unit unit cs)"

section \<open>The runtime: dates\<close>

text \<open>
  A \<open>Date\<close> holds a time value, the milliseconds since 1970-01-01T00:00:00Z, or \<open>NaN\<close>
  (\<open>None\<close>) when it is invalid. \<open>timeClip\<close> is the range check every setter applies.
\<close>

definition msPerDay :: int where "msPerDay = 86400000"

definition msPerHour :: int where "msPerHour = 3600000"

definition msPerMinute :: int where "msPerMinute = 60000"

definition timeClip :: "int \<Rightarrow> int option" where
  "timeClip t = (if \<bar>t\<bar> \<le> 8640000000000000 then Some t else None)"

text \<open>Day number since the epoch to year, month (1 to 12) and day of the month, and back.\<close>

definition civil_from_days :: "int \<Rightarrow> int \<times> int \<times> int" where
  "civil_from_days z =
     (let z' = z + 719468;
          era = z' div 146097;
          doe = z' mod 146097;
          yoe = (doe - doe div 1460 + doe div 36524 - doe div 146096) div 365;
          doy = doe - (365 * yoe + yoe div 4 - yoe div 100);
          mp = (5 * doy + 2) div 153;
          d = doy - (153 * mp + 2) div 5 + 1;
          m = (if mp < 10 then mp + 3 else mp - 9);
          y = yoe + era * 400
      in (if m \<le> 2 then y + 1 else y, m, d))"

definition days_from_civil :: "int \<Rightarrow> int \<Rightarrow> int \<Rightarrow> int" where
  "days_from_civil y m d =
     (let y' = (if m \<le> 2 then y - 1 else y);
          era = y' div 400;
          yoe = y' mod 400;
          doy = (153 * (if m > 2 then m - 3 else m + 9) + 2) div 5 + d - 1;
          doe = yoe * 365 + yoe div 4 - yoe div 100 + doy
      in era * 146097 + doe - 719468)"

text \<open>
  The clock and the time zone of a page evaluation, in milliseconds: the instant
  \<open>new Date()\<close> reads, the offset of local time from UTC that is in force at a UTC
  instant, and the offset by which a local time value is taken back to UTC. The two
  differ around a change of the offset (daylight saving).
\<close>

record clock =
  now :: int
  utc_offset :: "int \<Rightarrow> int"
  local_offset :: "int \<Rightarrow> int"

text \<open>The local time value of \<open>now\<close>, and the time value of a local one, range-checked.\<close>

definition local_time :: "clock \<Rightarrow> int" where
  "local_time clk = now clk + utc_offset clk (now clk)"

definition from_local :: "clock \<Rightarrow> int \<Rightarrow> int option" where
  "from_local clk t = timeClip (t - local_offset clk t)"

text \<open>
  \<open>now.setHours(now.getHours() - n)\<close>, \<open>now.setMinutes(now.getMinutes() - n)\<close> and
  \<open>now.setDate(now.getDate() - n)\<close>: the setter reads the fields of local time, moves
  one of them, and takes the local time that results back to UTC.
\<close>

definition sub_hours :: "clock \<Rightarrow> int \<Rightarrow> int option" where
  "sub_hours clk n = from_local clk (local_time clk - n * msPerHour)"

definition sub_minutes :: "clock \<Rightarrow> int \<Rightarrow> int option" where
  "sub_minutes clk n = from_local clk (local_time clk - n * msPerMinute)"

definition sub_days :: "clock \<Rightarrow> int \<Rightarrow> int option" where
  "sub_days clk n = from_local clk (local_time clk - n * msPerDay)"

text \<open>
  \<open>now.setMonth(now.getMonth() - n)\<close>: the local month moves, the day of the month and
  the time of day stay, and a day beyond the end of the new month runs into the next.
\<close>

definition sub_months :: "clock \<Rightarrow> int \<Rightarrow> int option" where
  "sub_months clk n =
     (let tod = local_time clk mod msPerDay
      in case civil_from_days (local_time clk div msPerDay) of
           (y, m, d) \<Rightarrow>
             (let mi = m - 1 - n;
                  day0 = days_from_civil (y + mi div 12) (mi mod 12 + 1) 1
              in from_local clk ((day0 + d - 1) * msPerDay + tod)))"

fun pad :: "nat \<Rightarrow> int \<Rightarrow> string" where
  "pad 0 n = []"
| "pad (Suc w) n = pad w (n div 10) @ [''0123456789'' ! nat (n mod 10)]"

definition iso_year :: "int \<Rightarrow> string" where
  "iso_year y =
     (if 0 \<le> y \<and> y \<le> 9999 then pad 4 y
      else (if y < 0 then ''-'' else ''+'') @ pad 6 \<bar>y\<bar>)"

definition iso_string :: "int \<Rightarrow> string" where
  "iso_string t =
     (let tod = t mod msPerDay
      in case civil_from_days (t div msPerDay) of
           (y, m, d) \<Rightarrow>
             iso_year y @ ''-'' @ pad 2 m @ ''-'' @ pad 2 d @ ''T'' @
             pad 2 (tod div msPerHour) @ '':'' @ pad 2 (tod div msPerMinute mod 60) @ '':'' @
             pad 2 (tod div 1000 mod 60) @ ''.'' @ pad 3 (tod mod 1000) @ ''Z'')"

text \<open>\<open>d.toISOString()\<close> throws a \<open>RangeError\<close> on an invalid date.\<close>

definition toISOString :: "int option \<Rightarrow> js_error + string" where
  "toISOString d = (case d of None \<Rightarrow> Inl RangeError | Some t \<Rightarrow> Inr (iso_string t))"

text \<open>\<open>s.split('T')[0]\<close>.\<close>

definition date_part :: "string \<Rightarrow> string" where
  "date_part s = takeWhile (\<lambda>c. c \<noteq> CHR ''T'') s"

text \<open>\<open>d.toISOString().split('T')[0]\<close>.\<close>

definition iso_date :: "int option \<Rightarrow> js_error + string" where
  "iso_date d = map_sum id date_part (toISOString d)"

section \<open>Page extraction\<close>

text \<open>
  Each extractor maps the job nodes of the rendered page. A node is modelled by what the
  extractor's selectors find in it: \<open>None\<close> where \<open>querySelector\<close> finds no element,
  otherwise the element's \<open>textContent\<close> (or \<open>href\<close>). One clock reading serves a page.
\<close>

text \<open>\<open>elem?.textContent?.trim() || d\<close>.\<close>

definition text_or :: "string option \<Rightarrow> string \<Rightarrow> string" where
  "text_or v d = or_default (map_option trim v) d"

subsection \<open>LinkedIn\<close>

text \<open>
  The posted date of \<open>extractLinkedInJobs\<close>, from the text of the node's \<open>time\<close> element.
  The units are looked for in the order of the source, anywhere in the lower-cased text.
\<close>

definition linkedin_posted :: "clock \<Rightarrow> string option \<Rightarrow> js_error + string" where
  "linkedin_posted clk el =
     (case el of
        None \<Rightarrow> Inr ''N/A''
      | Some txt \<Rightarrow>
          (let postedDate = toLowerCase (trim txt);
               num = or_one (parseInt postedDate)
           in if js_includes postedDate ''hour'' then toISOString (sub_hours clk num)
              else if js_includes postedDate ''day'' then iso_date (sub_days clk num)
              else if js_includes postedDate ''week'' then iso_date (sub_days clk (num * 7))
              else if js_includes postedDate ''month'' then iso_date (sub_months clk num)
              else if js_includes postedDate ''minute'' then toISOString (sub_minutes clk num)
              else Inr (trim txt)))"

record linkedin_card =
  lc_title :: "string option"
  lc_link :: "string option"
  lc_company :: "string option"
  lc_location :: "string option"
  lc_time :: "string option"

text \<open>
  The body of the \<open>try\<close> block for one node; \<open>None\<close> is the \<open>null\<close> of the \<open>catch\<close>
  block.
\<close>

definition linkedin_job :: "clock \<Rightarrow> linkedin_card \<Rightarrow> raw_job option" where
  "linkedin_job clk node =
     (case linkedin_posted clk (lc_time node) of
        Inl err \<Rightarrow> None
      | Inr posted \<Rightarrow>
          Some \<lparr>title = Some (text_or (lc_title node) ''N/A''),
                company = Some (text_or (lc_company node) ''N/A''),
                experience = Some ''N/A'',
                location = Some (text_or (lc_location node) ''N/A''),
                skills = Some [],
                salary = Some ''Not specified'',
                link = Some (or_default (lc_link node) ''#''),
                source = Some ''LinkedIn'',
                postedDate = Some posted,
                scrapedDate = Some (iso_string (now clk))\<rparr>)"

text \<open>\<open>jobElements.map(...).filter(Boolean)\<close>.\<close>

definition extractLinkedInJobs :: "clock \<Rightarrow> linkedin_card list \<Rightarrow> raw_job list" where
  "extractLinkedInJobs clk cards = List.map_filter (linkedin_job clk) cards"

subsection \<open>Shine\<close>

text \<open>
  The date conversion that \<open>extractShineJobs\<close> and the Hirist extraction share, statement
  for statement: days, then weeks, then hours or minutes; \<open>None\<close> when no pattern matches.
\<close>

definition relative_date :: "clock \<Rightarrow> string \<Rightarrow> (js_error + string) option" where
  "relative_date clk s =
     (case match_unit ''day'' s of
        Some ds \<Rightarrow> Some (iso_date (Option.bind (parseInt ds) (sub_days clk)))
      | None \<Rightarrow>
         (case match_unit ''week'' s of
            Some ws \<Rightarrow> Some (iso_date (Option.bind (parseInt ws) (\<lambda>n. sub_days clk (n * 7))))
          | None \<Rightarrow>
              if match_unit ''hour'' s \<noteq> None \<or> match_unit ''minute'' s \<noteq> None
              then Some (iso_date (Some (now clk)))
              else None))"

definition shine_posted :: "clock \<Rightarrow> string option \<Rightarrow> js_error + string" where
  "shine_posted clk el =
     (case el of
        None \<Rightarrow> Inr ''N/A''
      | Some txt \<Rightarrow>
          (let postedDate = trim (remove_all [''posted'', ''Posted'', ''ago'', [CHR 0x0A]] (trim txt))
           in case relative_date clk postedDate of Some r \<Rightarrow> r | None \<Rightarrow> Inr postedDate))"

record shine_card =
  sc_title :: "string option"
  sc_link :: "string option"
  sc_company :: "string option"
  sc_details :: "string list"
  sc_posted :: "string option"

definition shine_job :: "clock \<Rightarrow> shine_card \<Rightarrow> raw_job option" where
  "shine_job clk node =
     (case shine_posted clk (sc_posted node) of
        Inl err \<Rightarrow> None
      | Inr posted \<Rightarrow>
          (let spans = sc_details node; full = (3 \<le> length spans)
           in Some \<lparr>title = Some (text_or (sc_title node) ''N/A''),
                company = Some (text_or (sc_company node) ''N/A''),
                experience = Some (if full then text_or (Some (spans ! 0)) ''N/A'' else ''N/A''),
                location = Some (if full then text_or (Some (spans ! 1)) ''N/A'' else ''N/A''),
                skills = None,
                salary = Some (if full then text_or (Some (spans ! 2)) ''Not specified''
                               else ''Not specified''),
                link = Some (or_default (sc_link node) ''#''),
                source = Some ''Shine'',
                postedDate = Some posted,
                scrapedDate = Some (iso_string (now clk))\<rparr>))"

definition extractShineJobs :: "clock \<Rightarrow> shine_card list \<Rightarrow> raw_job list" where
  "extractShineJobs clk cards = List.map_filter (shine_job clk) cards"

subsection \<open>Naukri\<close>

text \<open>
  \<open>extractJobs\<close> of \<open>crawlNaukri\<close> has no \<open>try\<close> block, and nothing in it can throw.
  \<open>naukri_listing\<close> is the final \<open>allJobs.map\<close> of \<open>crawlNaukri\<close>.
\<close>

record naukri_card =
  nc_title :: "string option"
  nc_company :: "string option"
  nc_experience :: "string option"
  nc_location :: "string option"
  nc_skills :: "string list"
  nc_link :: "string option"
  nc_day :: "string option"

definition naukri_job :: "naukri_card \<Rightarrow> raw_job" where
  "naukri_job node =
     \<lparr>title = Some (text_or (nc_title node) ''N/A''),
      company = Some (text_or (nc_company node) ''N/A''),
      experience = Some (text_or (nc_experience node) ''N/A''),
      location = Some (text_or (nc_location node) ''N/A''),
      skills = Some (map trim (nc_skills node)),
      salary = None,
      link = Some (or_default (nc_link node) ''#''),
      source = None,
      postedDate = Some (case nc_day node of
                           None \<Rightarrow> ''N/A''
                         | Some txt \<Rightarrow> trim (remove_all [''Posted'', ''ago'', [CHR 0x0A]] (trim txt))),
      scrapedDate = None\<rparr>"

definition extractNaukriJobs :: "naukri_card list \<Rightarrow> raw_job list" where
  "extractNaukriJobs cards = map naukri_job cards"

definition naukri_listing :: "clock \<Rightarrow> raw_job \<Rightarrow> raw_job" where
  "naukri_listing clk job =
     job\<lparr>salary := Some ''Not specified'', source := Some ''Naukri'',
         scrapedDate := Some (iso_string (now clk))\<rparr>"

subsection \<open>Hirist\<close>

text \<open>
  The extraction of \<open>crawlHirist\<close> converts dates and has no \<open>try\<close> block: what a node
  throws leaves \<open>jobElements.map\<close>, and with it the page evaluation.
\<close>

record hirist_card =
  hc_title :: "string option"
  hc_link :: "string option"
  hc_company :: "string option"
  hc_experience :: "string option"
  hc_location :: "string option"
  hc_salary :: "string option"
  hc_skills :: "string list option"
  hc_date :: "string option"

definition hirist_posted :: "clock \<Rightarrow> string option \<Rightarrow> js_error + string" where
  "hirist_posted clk el =
     (case relative_date clk (toLowerCase (or_default el '''')) of
        Some r \<Rightarrow> r
      | None \<Rightarrow> Inr ''N/A'')"

definition hirist_job :: "clock \<Rightarrow> hirist_card \<Rightarrow> js_error + raw_job" where
  "hirist_job clk node =
     (case hirist_posted clk (hc_date node) of
        Inl err \<Rightarrow> Inl err
      | Inr posted \<Rightarrow>
          Inr \<lparr>title = Some (text_or (hc_title node) ''N/A''),
               company = Some (text_or (hc_company node) ''N/A''),
               experience = Some (text_or (hc_experience node) ''N/A''),
               location = Some (text_or (hc_location node) ''N/A''),
               skills = Some (case hc_skills node of None \<Rightarrow> [] | Some ss \<Rightarrow> map trim ss),
               salary = Some (text_or (hc_salary node) ''Not specified''),
               link = Some (or_default (hc_link node) ''#''),
               source = Some ''Hirist.tech'',
               postedDate = Some posted,
               scrapedDate = Some (iso_string (now clk))\<rparr>)"

fun map_throwing :: "('a \<Rightarrow> js_error + 'b) \<Rightarrow> 'a list \<Rightarrow> js_error + 'b list" where
  "map_throwing f [] = Inr []"
| "map_throwing f (x # xs) =
     (case f x of
        Inl err \<Rightarrow> Inl err
      | Inr y \<Rightarrow> (case map_throwing f xs of Inl err \<Rightarrow> Inl err | Inr ys \<Rightarrow> Inr (y # ys)))"

definition extractHiristJobs :: "clock \<Rightarrow> hirist_card list \<Rightarrow> js_error + raw_job list" where
  "extractHiristJobs clk cards = map_throwing (hirist_job clk) cards"

section \<open>Requests\<close>

text \<open>
  A value of a JSON request body (objects and arrays are left out). \<open>JUndefined\<close> is an
  absent property.
\<close>

datatype jsval = JUndefined | JNull | JBool bool | JNum int | JStr string

fun truthy :: "jsval \<Rightarrow> bool" where
  "truthy JUndefined = False"
| "truthy JNull = False"
| "truthy (JBool b) = b"
| "truthy (JNum n) = (n \<noteq> 0)"
| "truthy (JStr s) = (s \<noteq> [])"

fun nat_digits :: "nat \<Rightarrow> string" where
  "nat_digits n =
     (if n < 10 then [''0123456789'' ! n]
      else nat_digits (n div 10) @ [''0123456789'' ! (n mod 10)])"

text \<open>The text a template literal makes of a value.\<close>

fun js_string :: "jsval \<Rightarrow> string" where
  "js_string JUndefined = ''undefined''"
| "js_string JNull = ''null''"
| "js_string (JBool b) = (if b then ''true'' else ''false'')"
| "js_string (JNum n) = (if n < 0 then ''-'' @ nat_digits (nat (- n)) else nat_digits (nat n))"
| "js_string (JStr s) = s"

section \<open>POST /api/crawl\<close>

datatype site = Naukri | Shine | Hirist | LinkedIn

text \<open>
  The repository holds two server files. Their crawl routes differ in the sources of the
  \<open>switch\<close>: the second one has no \<open>linkedin\<close> case.
\<close>

datatype server = FirstServer | SecondServer

record crawl_body =
  b_role :: jsval
  b_location :: jsval
  b_source :: jsval
  b_experience :: jsval

text \<open>The \<open>switch\<close> on the lower-cased source; \<open>None\<close> is its \<open>default\<close> case.\<close>

definition site_of :: "server \<Rightarrow> string \<Rightarrow> site option" where
  "site_of srv s =
     (if s = ''naukri'' then Some Naukri
      else if s = ''shine'' then Some Shine
      else if s = ''hirist'' then Some Hirist
      else if s = ''linkedin'' \<and> srv = FirstServer then Some LinkedIn
      else None)"

definition invalid_source :: "server \<Rightarrow> string" where
  "invalid_source srv =
     (case srv of
        FirstServer \<Rightarrow>
          ''Invalid source. Supported sources are '' @ [CHR 0x22] @ ''naukri'' @ [CHR 0x22] @
          '', '' @ [CHR 0x22] @ ''shine'' @ [CHR 0x22] @ '', '' @ [CHR 0x22] @ ''hirist'' @
          [CHR 0x22] @ '', and '' @ [CHR 0x22] @ ''linkedin'' @ [CHR 0x22] @ ''.''
      | SecondServer \<Rightarrow>
          ''Invalid source. Supported sources are '' @ [CHR 0x22] @ ''naukri'' @ [CHR 0x22] @
          '', '' @ [CHR 0x22] @ ''shine'' @ [CHR 0x22] @ '', and '' @ [CHR 0x22] @ ''hirist'' @
          [CHR 0x22] @ ''.'')"

text \<open>
  \<open>source = 'naukri'\<close> in the destructuring pattern: the default replaces \<open>undefined\<close>
  only. \<open>source.toLowerCase()\<close> is a \<open>TypeError\<close> on anything but a string.
\<close>

definition source_or_default :: "jsval \<Rightarrow> jsval" where
  "source_or_default v = (if v = JUndefined then JStr ''naukri'' else v)"

definition switch_source :: "server \<Rightarrow> jsval \<Rightarrow> js_error + site option" where
  "switch_source srv v =
     (case v of JStr s \<Rightarrow> Inr (site_of srv (toLowerCase s)) | _ \<Rightarrow> Inl TypeError)"

text \<open>
  A crawler drives a browser; its result for a site, role, location and experience is
  given from outside. Only the Naukri and LinkedIn crawlers are passed the experience.
\<close>

type_synonym crawler = "site \<Rightarrow> jsval \<Rightarrow> jsval \<Rightarrow> jsval \<Rightarrow> js_error + raw_job list"

definition call_crawler :: "crawler \<Rightarrow> site \<Rightarrow> crawl_body \<Rightarrow> js_error + raw_job list" where
  "call_crawler crawl s body =
     (case s of
        Naukri \<Rightarrow> crawl Naukri (b_role body) (b_location body) (b_experience body)
      | Shine \<Rightarrow> crawl Shine (b_role body) (b_location body) JUndefined
      | Hirist \<Rightarrow> crawl Hirist (b_role body) (b_location body) JUndefined
      | LinkedIn \<Rightarrow> crawl LinkedIn (b_role body) (b_location body) (b_experience body))"

record crawl_report =
  rep_source :: jsval
  rep_role :: jsval
  rep_location :: jsval
  totalJobs :: int
  rep_counts :: counts
  rep_jobs :: "raw_job list"

datatype crawl_reply = CrawlRejected string | CrawlFailed js_error | CrawlDone crawl_report

fun crawl_status :: "crawl_reply \<Rightarrow> nat" where
  "crawl_status (CrawlRejected msg) = 400"
| "crawl_status (CrawlFailed err) = 500"
| "crawl_status (CrawlDone report) = 200"

text \<open>
  What a request did: the reply, the crawlers it started, the operations on the
  database and the table afterwards.
\<close>

record crawl_result =
  reply :: crawl_reply
  crawled :: "site list"
  store_ops :: "db_op list"
  store_after :: "job_row list"

definition crawl_route ::
  "server \<Rightarrow> crawler \<Rightarrow> db_env \<Rightarrow> job_row list \<Rightarrow> crawl_body \<Rightarrow> crawl_result" where
  "crawl_route srv crawl env store body =
     (if \<not> truthy (b_role body) \<or> \<not> truthy (b_location body)
      then \<lparr>reply = CrawlRejected ''Role and location are required'', crawled = [],
            store_ops = [], store_after = store\<rparr>
      else
        (case switch_source srv (source_or_default (b_source body)) of
           Inl err \<Rightarrow> \<lparr>reply = CrawlFailed err, crawled = [], store_ops = [], store_after = store\<rparr>
         | Inr None \<Rightarrow>
             \<lparr>reply = CrawlRejected (invalid_source srv), crawled = [], store_ops = [],
              store_after = store\<rparr>
         | Inr (Some s) \<Rightarrow>
             (case call_crawler crawl s body of
                Inl err \<Rightarrow>
                  \<lparr>reply = CrawlFailed err, crawled = [s], store_ops = [], store_after = store\<rparr>
              | Inr jobs \<Rightarrow>
                  (let saved = saveJobs env store (Some jobs)
                   in \<lparr>reply =
                         (case outcome saved of
                            Inl err \<Rightarrow> CrawlFailed err
                          | Inr c \<Rightarrow>
                              CrawlDone \<lparr>rep_source = source_or_default (b_source body),
                                         rep_role = b_role body,
                                         rep_location = b_location body,
                                         totalJobs = int (length jobs),
                                         rep_counts = c,
                                         rep_jobs = take 50 jobs\<rparr>),
                        crawled = [s], store_ops = ops saved, store_after = db saved\<rparr>))))"

section \<open>GET /api/jobs\<close>

text \<open>
  \<open>text LIKE pattern\<close>: \<open>%\<close> stands for any run of characters, \<open>_\<close> for one character, a
  backslash takes the next character literally. \<open>ILIKE\<close> compares without regard to
  case.
\<close>

fun like_match :: "string \<Rightarrow> string \<Rightarrow> bool" where
  "like_match [] s = (s = [])"
| "like_match (p # ps) [] = (p = CHR ''%'' \<and> like_match ps [])"
| "like_match (p # ps) (c # cs) =
     (if p = CHR ''%'' then like_match ps (c # cs) \<or> like_match (p # ps) cs
      else if p = CHR ''_'' then like_match ps cs
      else if p = CHR 0x5C then (case ps of [] \<Rightarrow> False | q # qs \<Rightarrow> q = c \<and> like_match qs cs)
      else p = c \<and> like_match ps cs)"

definition ilike :: "string \<Rightarrow> string \<Rightarrow> bool" where
  "ilike txt pattern = like_match (toLowerCase pattern) (toLowerCase txt)"

text \<open>One clause \<open>column ILIKE '%value%'\<close>, present when the value is truthy.\<close>

definition ilike_clause :: "string option \<Rightarrow> string \<Rightarrow> bool" where
  "ilike_clause v txt =
     (case v of
        None \<Rightarrow> True
      | Some x \<Rightarrow> if x = [] then True else ilike txt (''%'' @ x @ ''%''))"

definition where_clauses :: "string option \<Rightarrow> string option \<Rightarrow> string option \<Rightarrow> job_row \<Rightarrow> bool" where
  "where_clauses r l s row =
     (ilike_clause r (col_title row) \<and> ilike_clause l (col_location row) \<and>
      ilike_clause s (col_source row))"

text \<open>
  \<open>ORDER BY posted_date DESC\<close> on the text column, compared byte by byte. Rows with equal
  dates come in an order of the database's choosing; the model fixes one.
\<close>

definition order_by_posted_date_desc :: "job_row list \<Rightarrow> job_row list" where
  "order_by_posted_date_desc rows = rev (sort_key col_posted_date rows)"

record jobs_query =
  q_role :: "string option"
  q_location :: "string option"
  q_source :: "string option"
  q_page :: "int option"
  q_limit :: "int option"

record jobs_page =
  pg_count :: int
  pg_total :: int
  pg_page :: int
  pg_pages :: "int option"
  pg_jobs :: "job_row list"

datatype jobs_reply = JobsFailed | JobsPage jobs_page

text \<open>
  The route with numeric \<open>page\<close> and \<open>limit\<close> (defaults 1 and 20). The database rejects a
  negative LIMIT or OFFSET, and any failure of a query is answered with status 500.
  \<open>Math.ceil(total / limit)\<close> is not a number for \<open>limit = 0\<close> (\<open>None\<close>).
\<close>

definition jobs_route :: "bool \<Rightarrow> job_row list \<Rightarrow> jobs_query \<Rightarrow> jobs_reply" where
  "jobs_route query_fails store q =
     (let page = (case q_page q of None \<Rightarrow> 1 | Some p \<Rightarrow> p);
          limit = (case q_limit q of None \<Rightarrow> 20 | Some l \<Rightarrow> l);
          offset = (page - 1) * limit;
          matching = filter (where_clauses (q_role q) (q_location q) (q_source q)) store;
          jobs = take (nat limit) (drop (nat offset) (order_by_posted_date_desc matching));
          total = int (length matching)
      in if query_fails \<or> limit < 0 \<or> offset < 0 then JobsFailed
         else JobsPage \<lparr>pg_count = int (length jobs), pg_total = total, pg_page = page,
                         pg_pages = (if limit = 0 then None else Some (- ((- total) div limit))),
                         pg_jobs = jobs\<rparr>)"

section \<open>POST /api/alert\<close>

record alert_body =
  a_email :: jsval
  a_role :: jsval
  a_location :: jsval
  a_source :: jsval

definition optional_pattern :: "jsval \<Rightarrow> string list" where
  "optional_pattern v = (if truthy v then [''%'' @ js_string v @ ''%''] else [])"

text \<open>\<open>queryParams\<close>: the pattern of the role, then those of the location and the source given.\<close>

definition alert_params :: "alert_body \<Rightarrow> string list" where
  "alert_params body =
     [''%'' @ js_string (a_role body) @ ''%''] @ optional_pattern (a_location body) @
     optional_pattern (a_source body)"

text \<open>
  The SELECT of the route, on the table that \<open>initializeDatabase\<close> creates. Its first
  condition is \<open>posted_date >= NOW() - INTERVAL '24 HOURS'\<close>. The column \<open>posted_date\<close> is
  created as \<open>TEXT\<close> (\<open>Changed from TIMESTAMP to TEXT to store raw string\<close>) and the
  right-hand side is a \<open>timestamp with time zone\<close>. PostgreSQL compares two texts or two
  timestamps and casts neither a text column to a timestamp nor a timestamp to text by
  itself, so \<open>text >= timestamptz\<close> names no operator. The operator is looked up when the
  statement is analysed, before a row is read or a parameter looked at: \<open>pool.query\<close>
  rejects for every store and every request.
\<close>

definition alert_query :: "job_row list \<Rightarrow> string list \<Rightarrow> js_error + job_row list" where
  "alert_query store params = Inl QueryError"

datatype alert_reply = AlertRejected string | AlertFailed | AlertSent int

fun alert_status :: "alert_reply \<Rightarrow> nat" where
  "alert_status (AlertRejected msg) = 400"
| "alert_status AlertFailed = 500"
| "alert_status (AlertSent n) = 200"

text \<open>
  The reply and the calls of \<open>sendMail\<close>, each with the recipient and the postings of the
  message. \<open>mail_fails\<close> says whether the mail transport fails.
\<close>

record alert_result =
  alert_reply :: alert_reply
  deliveries :: "(jsval \<times> job_row list) list"

definition alert_route :: "bool \<Rightarrow> job_row list \<Rightarrow> alert_body \<Rightarrow> alert_result" where
  "alert_route mail_fails store body =
     (if \<not> truthy (a_email body) \<or> \<not> truthy (a_role body)
      then \<lparr>alert_reply = AlertRejected ''Email and role are required'', deliveries = []\<rparr>
      else
        (case alert_query store (alert_params body) of
           Inl e \<Rightarrow> \<lparr>alert_reply = AlertFailed, deliveries = []\<rparr>
         | Inr jobs \<Rightarrow>
             if jobs = [] then \<lparr>alert_reply = AlertSent 0, deliveries = []\<rparr>
             else if mail_fails
             then \<lparr>alert_reply = AlertFailed, deliveries = [(a_email body, jobs)]\<rparr>
             else \<lparr>alert_reply = AlertSent (int (length jobs)),
                   deliveries = [(a_email body, jobs)]\<rparr>))"

section \<open>Notions used in the properties\<close>

text \<open>The UNIQUE constraint on \<open>link\<close>, and the rows that carry a given link.\<close>

definition unique_links :: "job_row list \<Rightarrow> bool" where
  "unique_links rows = distinct (map col_link rows)"

definition rows_with_link :: "string \<Rightarrow> job_row list \<Rightarrow> job_row list" where
  "rows_with_link l rows = filter (\<lambda>row. col_link row = l) rows"

text \<open>
  A job whose values the database accepts: it has the three properties bound to the NOT
  NULL columns without a default, and no text bound for it holds a NUL. The first
  argument is the text of the clock, bound where the job has no posted date.
\<close>

definition storable :: "string \<Rightarrow> raw_job \<Rightarrow> bool" where
  "storable clock job =
     (title job \<noteq> None \<and> company job \<noteq> None \<and> link job \<noteq> None \<and>
      \<not> binds_nul (job_params clock job))"

text \<open>No fault and no refusal on the way to a commit.\<close>

definition no_faults :: "db_env \<Rightarrow> bool" where
  "no_faults env =
     (\<not> connect_fails env \<and> \<not> begin_fails env \<and> (\<forall>i. \<not> insert_fails env i) \<and>
      (\<forall>i. \<not> insert_refused env i) \<and> \<not> commit_fails env)"

text \<open>The settled promises of a batch, and how many of them settled in a given way.\<close>

definition settle :: "db_env \<Rightarrow> job_row list \<Rightarrow> raw_job list \<Rightarrow> settled list" where
  "settle env store js =
     fst (run_inserts (insert_fails env) (insert_refused env) 0
            (map (job_params (clock_text env)) js) (store, False))"

definition count_settled :: "settled \<Rightarrow> settled list \<Rightarrow> int" where
  "count_settled s results = int (length (filter (\<lambda>r. r = s) results))"

text \<open>A filter value without the pattern characters of LIKE.\<close>

definition plain_text :: "string \<Rightarrow> bool" where
  "plain_text x = list_all (\<lambda>c. c \<noteq> CHR ''%'' \<and> c \<noteq> CHR ''_'' \<and> c \<noteq> CHR 0x5C) x"

definition plain_filter :: "string option \<Rightarrow> bool" where
  "plain_filter v = (case v of None \<Rightarrow> True | Some x \<Rightarrow> plain_text x)"

text \<open>
  The filter in the words of the specification: a case-insensitive substring match of
  each given value, all of them together.
\<close>

definition contains_ci :: "string option \<Rightarrow> string \<Rightarrow> bool" where
  "contains_ci v s =
     (case v of None \<Rightarrow> True | Some x \<Rightarrow> js_includes (toLowerCase s) (toLowerCase x))"

definition substring_filter :: "string option \<Rightarrow> string option \<Rightarrow> string option \<Rightarrow> job_row \<Rightarrow> bool" where
  "substring_filter r l s row =
     (contains_ci r (col_title row) \<and> contains_ci l (col_location row) \<and>
      contains_ci s (col_source row))"

text \<open>The page and the limit of a request, 1 and 20 when it gives none.\<close>

definition query_page :: "jobs_query \<Rightarrow> int" where
  "query_page q = (case q_page q of None \<Rightarrow> 1 | Some p \<Rightarrow> p)"

definition query_limit :: "jobs_query \<Rightarrow> int" where
  "query_limit q = (case q_limit q of None \<Rightarrow> 20 | Some l \<Rightarrow> l)"

text \<open>The rows of the store that match the filters of a request.\<close>

definition matching_rows :: "job_row list \<Rightarrow> jobs_query \<Rightarrow> job_row list" where
  "matching_rows store q = filter (where_clauses (q_role q) (q_location q) (q_source q)) store"

text \<open>Descending order of the posted dates.\<close>

definition posted_desc :: "job_row list \<Rightarrow> bool" where
  "posted_desc rows = sorted_wrt (\<lambda>a b. col_posted_date b \<le> col_posted_date a) rows"

text \<open>
  The text the LinkedIn extraction searches for a unit and the amount it subtracts, and
  the text the Shine extraction matches against.
\<close>

definition linkedin_text :: "string \<Rightarrow> string" where
  "linkedin_text s = toLowerCase (trim s)"

definition linkedin_amount :: "string \<Rightarrow> int" where
  "linkedin_amount s = or_one (parseInt (linkedin_text s))"

definition shine_text :: "string \<Rightarrow> string" where
  "shine_text s = trim (remove_all [''posted'', ''Posted'', ''ago'', [CHR 0x0A]] (trim s))"

text \<open>
  No change of the offset in the way: the offset by which the local time \<open>d\<close>
  milliseconds before the local time of \<open>now\<close> goes back to UTC is the offset in force
  at \<open>now\<close>.
\<close>

definition same_offset :: "clock \<Rightarrow> int \<Rightarrow> bool" where
  "same_offset clk d = (local_offset clk (local_time clk - d) = utc_offset clk (now clk))"

section \<open>Concrete inputs\<close>

definition env_ok :: db_env where
  "env_ok =
     \<lparr>connect_fails = False, begin_fails = False, insert_fails = (\<lambda>i. False),
      insert_refused = (\<lambda>i. False), commit_fails = False, rollback_fails = False,
      clock_text = ''2024-03-15T07:00:00.000+05:30''\<rparr>"

text \<open>The pool cannot hand out a client.\<close>

definition env_unreachable :: db_env where
  "env_unreachable = env_ok\<lparr>connect_fails := True\<rparr>"

text \<open>The connection is lost after the client was acquired: every statement fails.\<close>

definition env_lost :: db_env where
  "env_lost =
     env_ok\<lparr>begin_fails := True, insert_fails := (\<lambda>i. True), commit_fails := True,
            rollback_fails := True\<rparr>"

text \<open>Only COMMIT fails.\<close>

definition env_commit_fails :: db_env where
  "env_commit_fails = env_ok\<lparr>commit_fails := True\<rparr>"

text \<open>Only BEGIN fails.\<close>

definition env_begin_fails :: db_env where
  "env_begin_fails = env_ok\<lparr>begin_fails := True\<rparr>"

text \<open>The driver rejects the first INSERT of the batch.\<close>

definition env_first_rejected :: db_env where
  "env_first_rejected = env_ok\<lparr>insert_fails := (\<lambda>i. i = 0)\<rparr>"

definition job_backend :: raw_job where
  "job_backend =
     \<lparr>title = Some ''Backend Engineer'', company = Some ''Acme'', experience = Some ''2-4 Yrs'',
      location = Some ''Pune'', skills = Some [''node'', ''sql''], salary = None,
      link = Some ''https://www.naukri.com/job-listings-backend-engineer-acme-1'',
      source = Some ''Naukri'', postedDate = Some ''2 Days'',
      scrapedDate = Some ''2024-03-15T01:30:00.000Z''\<rparr>"

definition job_frontend :: raw_job where
  "job_frontend =
     \<lparr>title = Some ''Frontend Engineer'', company = Some ''Globex'', experience = None,
      location = Some ''Chennai'', skills = None, salary = Some ''12 LPA'',
      link = Some ''https://www.naukri.com/job-listings-frontend-engineer-globex-2'',
      source = Some ''Naukri'', postedDate = None,
      scrapedDate = Some ''2024-03-15T01:30:00.000Z''\<rparr>"

text \<open>A job object without a title.\<close>

definition job_untitled :: raw_job where
  "job_untitled = job_backend\<lparr>title := None\<rparr>"

text \<open>A job whose title holds a NUL between its two words.\<close>

definition job_nul :: raw_job where
  "job_nul = job_frontend\<lparr>title := Some (''Frontend'' @ [CHR 0x00] @ ''Engineer'')\<rparr>"

definition crawl_body_plain :: crawl_body where
  "crawl_body_plain =
     \<lparr>b_role = JStr ''Backend Engineer'', b_location = JStr ''Pune'', b_source = JUndefined,
      b_experience = JUndefined\<rparr>"

text \<open>A crawler that finds no job on any page, and one that finds two.\<close>

definition crawl_nothing :: crawler where
  "crawl_nothing = (\<lambda>s r l e. Inr [])"

definition crawl_two :: crawler where
  "crawl_two = (\<lambda>s r l e. Inr [job_backend, job_frontend])"

definition crawl_body_null_source :: crawl_body where
  "crawl_body_null_source = crawl_body_plain\<lparr>b_source := JNull\<rparr>"

definition crawl_body_monster :: crawl_body where
  "crawl_body_monster = crawl_body_plain\<lparr>b_source := JStr ''Monster''\<rparr>"

definition row_backend :: job_row where
  "row_backend =
     \<lparr>col_title = ''Backend Engineer'', col_company = ''Acme'', col_experience = ''2-4 Yrs'',
      col_location = ''Pune'', col_skills = [''node'', ''sql''], col_salary = ''Not specified'',
      col_link = ''https://www.naukri.com/job-listings-backend-engineer-acme-1'',
      col_source = ''Naukri'', col_posted_date = ''2024-03-13''\<rparr>"

definition row_frontend :: job_row where
  "row_frontend =
     \<lparr>col_title = ''Frontend Engineer'', col_company = ''Globex'', col_experience = ''N/A'',
      col_location = ''Chennai'', col_skills = [], col_salary = ''12 LPA'',
      col_link = ''https://www.linkedin.com/jobs/view/2'',
      col_source = ''LinkedIn'', col_posted_date = ''2024-03-14T22:30:00.000Z''\<rparr>"

definition row_nurse :: job_row where
  "row_nurse =
     \<lparr>col_title = ''Staff Nurse'', col_company = ''City Hospital'', col_experience = ''N/A'',
      col_location = ''Pune'', col_skills = [], col_salary = ''Not specified'',
      col_link = ''https://www.shine.com/jobs/staff-nurse/3'',
      col_source = ''Shine'', col_posted_date = ''2024-03-15''\<rparr>"

definition query_role :: "string \<Rightarrow> jobs_query" where
  "query_role r =
     \<lparr>q_role = Some r, q_location = None, q_source = None, q_page = None, q_limit = None\<rparr>"

definition alert_body_role :: "string \<Rightarrow> alert_body" where
  "alert_body_role r =
     \<lparr>a_email = JStr ''hr@example.com'', a_role = JStr r, a_location = JUndefined,
      a_source = JUndefined\<rparr>"

text \<open>The instant 2024-03-15T01:30:00.000Z, read in a zone five and a half hours ahead.\<close>

definition clock_mar15 :: clock where
  "clock_mar15 =
     \<lparr>now = 1710466200000, utc_offset = (\<lambda>t. 19800000), local_offset = (\<lambda>t. 19800000)\<rparr>"

text \<open>
  The instant 2024-03-10T08:00:00.000Z in New York, an hour after the clocks went from
  02:00 to 03:00: five hours behind UTC before 07:00Z, four hours from then on, and a
  local time before 03:00 of that day is taken back by five hours.
\<close>

definition clock_new_york :: clock where
  "clock_new_york =
     \<lparr>now = 1710057600000,
      utc_offset = (\<lambda>t. if t < 1710054000000 then - 18000000 else - 14400000),
      local_offset = (\<lambda>t. if t < 1710039600000 then - 18000000 else - 14400000)\<rparr>"

definition hirist_plain :: hirist_card where
  "hirist_plain =
     \<lparr>hc_title = Some ''Backend Engineer'', hc_link = Some ''https://www.hirist.tech/j/1'',
      hc_company = Some ''Acme'', hc_experience = Some ''2-4 Yrs'', hc_location = Some ''Pune'',
      hc_salary = None, hc_skills = Some [''node''], hc_date = Some ''Posted 2 days ago''\<rparr>"

definition hirist_far :: hirist_card where
  "hirist_far =
     hirist_plain\<lparr>hc_link := Some ''https://www.hirist.tech/j/2'',
                  hc_date := Some ''Posted 200000000 days ago''\<rparr>"

definition hirist_plain_job :: raw_job where
  "hirist_plain_job =
     \<lparr>title = Some ''Backend Engineer'', company = Some ''Acme'', experience = Some ''2-4 Yrs'',
      location = Some ''Pune'', skills = Some [''node''], salary = Some ''Not specified'',
      link = Some ''https://www.hirist.tech/j/1'', source = Some ''Hirist.tech'',
      postedDate = Some ''2024-03-13'', scrapedDate = Some ''2024-03-15T01:30:00.000Z''\<rparr>"

definition linkedin_plain :: linkedin_card where
  "linkedin_plain =
     \<lparr>lc_title = Some ''  Backend Engineer '',
      lc_link = Some ''https://www.linkedin.com/jobs/view/1'',
      lc_company = Some ''Acme'', lc_location = None, lc_time = Some '' 2 days ago ''\<rparr>"

definition linkedin_far :: linkedin_card where
  "linkedin_far = linkedin_plain\<lparr>lc_time := Some ''200000000 days ago''\<rparr>"

definition linkedin_plain_job :: raw_job where
  "linkedin_plain_job =
     \<lparr>title = Some ''Backend Engineer'', company = Some ''Acme'', experience = Some ''N/A'',
      location = Some ''N/A'', skills = Some [], salary = Some ''Not specified'',
      link = Some ''https://www.linkedin.com/jobs/view/1'', source = Some ''LinkedIn'',
      postedDate = Some ''2024-03-13'', scrapedDate = Some ''2024-03-15T01:30:00.000Z''\<rparr>"

section \<open>The persist gate\<close>

subsection \<open>Single statements and batches\<close>

lemma insert_stmt_cases:
  "insert_stmt b b' p (rows, a) = (r, (rows', a')) \<Longrightarrow>
     (r = Rejected \<and> rows' = rows) \<or>
     (r = Fulfilled 0 \<and> rows' = rows \<and> a' = a \<and> p_link p \<in> Some ` set (map col_link rows)) \<or>
     (r = Fulfilled 1 \<and> \<not> a \<and> \<not> a' \<and>
        (\<exists>row. rows' = rows @ [row] \<and> p_link p = Some (col_link row) \<and>
           col_link row \<notin> set (map col_link rows)))"
  by (auto simp: insert_stmt_def new_row_def split: if_splits option.splits)

lemma fst_run_inserts_Cons:
  "fst (run_inserts f g i (p # ps) st) =
     fst (insert_stmt (f i) (g i) p st) # fst (run_inserts f g (Suc i) ps (snd (insert_stmt (f i) (g i) p st)))"
  by (simp split: prod.splits)

lemma run_inserts_length: "length (fst (run_inserts f g i ps st)) = length ps"
  by (induction ps arbitrary: i st) (simp_all add: fst_run_inserts_Cons del: run_inserts.simps(2))

lemma run_inserts_unique:
  "run_inserts f g i ps (rows, a) = (rs, (rows', a')) \<Longrightarrow> distinct (map col_link rows) \<Longrightarrow>
     distinct (map col_link rows') \<and> (\<exists>added. rows' = rows @ added)"
proof (induction ps arbitrary: i rows a rs)
  case Nil
  then show ?case by simp
next
  case (Cons p ps)
  obtain r0 rows1 a1 where s: "insert_stmt (f i) (g i) p (rows, a) = (r0, (rows1, a1))"
    by (metis prod.exhaust)
  obtain rs1 where t: "run_inserts f g (Suc i) ps (rows1, a1) = (rs1, (rows', a'))"
    using Cons.prems(1) s by (auto split: prod.splits)
  from insert_stmt_cases[OF s] Cons.prems(2)
  have d: "distinct (map col_link rows1)" and e: "\<exists>added. rows1 = rows @ added" by auto
  from Cons.IH[OF t d] e show ?case by auto
qed

text \<open>A batch of storable jobs without faults: nothing is rejected, every link is stored.\<close>

lemma insert_stmt_storable:
  "p_title p \<noteq> None \<Longrightarrow> p_company p \<noteq> None \<Longrightarrow> p_link p = Some l \<Longrightarrow>
   \<not> binds_nul p \<Longrightarrow>
   insert_stmt False False p (rows, False) =
     (if l \<in> set (map col_link rows) then (Fulfilled 0, (rows, False))
      else (Fulfilled 1, (rows @ [new_row (the (p_title p)) (the (p_company p)) l p], False)))"
  by (auto simp: insert_stmt_def split: option.splits)

lemma run_inserts_storable:
  "\<forall>p \<in> set ps. p_title p \<noteq> None \<and> p_company p \<noteq> None \<and> p_link p \<noteq> None \<and>
      \<not> binds_nul p \<Longrightarrow>
   \<forall>k. \<not> f k \<and> \<not> g k \<Longrightarrow>
   run_inserts f g i ps (rows, False) = (rs, (rows', a')) \<Longrightarrow>
   \<not> a' \<and> (\<forall>p \<in> set ps. \<forall>l. p_link p = Some l \<longrightarrow> l \<in> set (map col_link rows'))
     \<and> set (map col_link rows) \<subseteq> set (map col_link rows')"
proof (induction ps arbitrary: i rows rs)
  case Nil
  then show ?case by simp
next
  case (Cons p ps)
  from Cons.prems(1) obtain l where l: "p_link p = Some l"
    and tc: "p_title p \<noteq> None" "p_company p \<noteq> None" and nn: "\<not> binds_nul p"
    by auto
  have fi: "f i = False" "g i = False" using Cons.prems(2) by simp_all
  let ?rows1 = "if l \<in> set (map col_link rows) then rows
                else rows @ [new_row (the (p_title p)) (the (p_company p)) l p]"
  let ?r = "if l \<in> set (map col_link rows) then Fulfilled 0 else Fulfilled 1"
  have s: "insert_stmt (f i) (g i) p (rows, False) = (?r, (?rows1, False))"
    unfolding fi using insert_stmt_storable[OF tc l nn] by simp
  obtain rs1 where t: "run_inserts f g (Suc i) ps (?rows1, False) = (rs1, (rows', a'))"
    using Cons.prems(3) s by (auto split: prod.splits)
  have ps: "\<forall>p \<in> set ps. p_title p \<noteq> None \<and> p_company p \<noteq> None \<and> p_link p \<noteq> None \<and>
      \<not> binds_nul p"
    using Cons.prems(1) by simp
  from Cons.IH[OF ps Cons.prems(2) t]
  have ih: "\<not> a'" "\<forall>p \<in> set ps. \<forall>l. p_link p = Some l \<longrightarrow> l \<in> set (map col_link rows')"
       "set (map col_link ?rows1) \<subseteq> set (map col_link rows')" by auto
  have l1: "l \<in> set (map col_link ?rows1)" by (simp add: new_row_def)
  have sub: "set (map col_link rows) \<subseteq> set (map col_link ?rows1)" by auto
  show ?case using ih l l1 sub by auto
qed

lemma run_inserts_present:
  "\<forall>p \<in> set ps. p_title p \<noteq> None \<and> p_company p \<noteq> None \<and> \<not> binds_nul p \<and>
      (\<exists>l. p_link p = Some l \<and> l \<in> set (map col_link rows)) \<Longrightarrow>
   \<forall>k. \<not> f k \<and> \<not> g k \<Longrightarrow>
   run_inserts f g i ps (rows, False) = (replicate (length ps) (Fulfilled 0), (rows, False))"
proof (induction ps arbitrary: i)
  case Nil
  then show ?case by simp
next
  case (Cons p ps)
  from Cons.prems(1) obtain l where l: "p_link p = Some l" "l \<in> set (map col_link rows)"
    and tc: "p_title p \<noteq> None" "p_company p \<noteq> None" and nn: "\<not> binds_nul p" by auto
  have fi: "f i = False" "g i = False" using Cons.prems(2) by simp_all
  have s: "insert_stmt (f i) (g i) p (rows, False) = (Fulfilled 0, (rows, False))"
    unfolding fi using insert_stmt_storable[OF tc l(1) nn] l(2) by simp
  have ps: "\<forall>p \<in> set ps. p_title p \<noteq> None \<and> p_company p \<noteq> None \<and> \<not> binds_nul p \<and>
      (\<exists>l. p_link p = Some l \<and> l \<in> set (map col_link rows))"
    using Cons.prems(1) by simp
  have "run_inserts f g (Suc i) ps (rows, False) =
          (replicate (length ps) (Fulfilled 0), (rows, False))"
    by (rule Cons.IH[OF ps Cons.prems(2)])
  with s show ?case by simp
qed

subsection \<open>The table after a call\<close>

lemma saveJobs_db_cases:
  "db (saveJobs env store jobs) = store \<or>
   (\<exists>js. jobs = Some js \<and>
      db (saveJobs env store jobs) =
        fst (snd (run_inserts (insert_fails env) (insert_refused env) 0
          (map (job_params (clock_text env)) js)
                    (store, False))))"
  by (auto simp: saveJobs_def save_catch_def Let_def split: option.splits prod.splits)

lemma saveJobs_extends:
  assumes "unique_links store"
  shows "\<exists>added. db (saveJobs env store jobs) = store @ added \<and> unique_links (store @ added)"
proof -
  from saveJobs_db_cases[of env store jobs] show ?thesis
  proof
    assume "db (saveJobs env store jobs) = store"
    with assms show ?thesis by auto
  next
    assume "\<exists>js. jobs = Some js \<and> db (saveJobs env store jobs) =
        fst (snd (run_inserts (insert_fails env) (insert_refused env) 0
          (map (job_params (clock_text env)) js)
                    (store, False)))"
    then obtain js where d: "db (saveJobs env store jobs) =
        fst (snd (run_inserts (insert_fails env) (insert_refused env) 0
          (map (job_params (clock_text env)) js)
                    (store, False)))"
      by blast
    obtain rs rows' a' where r:
      "run_inserts (insert_fails env) (insert_refused env) 0
          (map (job_params (clock_text env)) js) (store, False)
         = (rs, (rows', a'))"
      by (metis prod.exhaust)
    from run_inserts_unique[OF r] assms obtain added
      where "rows' = store @ added" "distinct (map col_link rows')"
      by (auto simp: unique_links_def)
    with d r show ?thesis by (auto simp: unique_links_def)
  qed
qed

lemma filter_link_one:
  "distinct (map f xs) \<Longrightarrow> l \<in> set (map f xs) \<Longrightarrow> length (filter (\<lambda>x. f x = l) xs) = 1"
proof (induction xs)
  case Nil
  then show ?case by simp
next
  case (Cons x xs)
  show ?case
  proof (cases "f x = l")
    case True
    with Cons.prems(1) have "\<forall>y \<in> set xs. f y \<noteq> l"
      by (metis distinct.simps(2) image_eqI list.simps(9) set_map)
    then have "filter (\<lambda>x. f x = l) xs = []" by (simp add: filter_empty_conv)
    with True show ?thesis by simp
  next
    case False
    with Cons show ?thesis by auto
  qed
qed

lemma rows_with_link_old:
  assumes "unique_links (store @ added)" "l \<in> set (map col_link store)"
  shows "rows_with_link l (store @ added) = rows_with_link l store"
proof -
  from assms have "\<forall>r \<in> set added. col_link r \<noteq> l" by (auto simp: unique_links_def)
  then have "filter (\<lambda>r. col_link r = l) added = []" by (simp add: filter_empty_conv)
  then show ?thesis by (simp add: rows_with_link_def)
qed

lemma job_params_storable:
  "storable c j \<Longrightarrow> p_title (job_params c j) \<noteq> None \<and> p_company (job_params c j) \<noteq> None
     \<and> p_link (job_params c j) = link j \<and> link j \<noteq> None \<and> \<not> binds_nul (job_params c j)"
  by (simp add: storable_def job_params_def)

lemma count_new_replicate0: "count_new (replicate n (Fulfilled 0)) = 0"
  by (simp add: count_new_def)

lemma saveJobs_twice:
  assumes u: "unique_links store" and st: "\<forall>j \<in> set js. storable (clock_text env) j"
    and nf: "no_faults env"
  shows "outcome (saveJobs env (db (saveJobs env store (Some js))) (Some js))
           = Inr \<lparr>newJobs = 0, duplicates = int (length js)\<rparr>
       \<and> db (saveJobs env (db (saveJobs env store (Some js))) (Some js))
           = db (saveJobs env store (Some js))
       \<and> (\<forall>j \<in> set js.
             length (rows_with_link (the (link j)) (db (saveJobs env store (Some js)))) = 1)"
proof (cases "js = []")
  case True
  then show ?thesis by (simp add: saveJobs_def zero_counts_def)
next
  case False
  let ?ps = "map (job_params (clock_text env)) js"
  let ?f = "insert_fails env"
  let ?g = "insert_refused env"
  obtain rs rows' a' where r: "run_inserts ?f ?g 0 ?ps (store, False) = (rs, (rows', a'))"
    by (metis prod.exhaust)
  have pst: "\<forall>p \<in> set ?ps. p_title p \<noteq> None \<and> p_company p \<noteq> None \<and> p_link p \<noteq> None \<and>
      \<not> binds_nul p"
    using st job_params_storable by fastforce
  have nf': "\<forall>k. \<not> ?f k \<and> \<not> ?g k" using nf by (simp add: no_faults_def)
  from run_inserts_storable[OF pst nf' r]
  have a: "\<not> a'"
    and pres: "\<forall>p \<in> set ?ps. \<forall>l. p_link p = Some l \<longrightarrow> l \<in> set (map col_link rows')"
    by auto
  have first: "db (saveJobs env store (Some js)) = rows'"
    using False nf r a by (simp add: saveJobs_def no_faults_def Let_def)
  have d: "distinct (map col_link rows')"
    using run_inserts_unique[OF r] u by (simp add: unique_links_def)
  have pst2: "\<forall>p \<in> set ?ps. p_title p \<noteq> None \<and> p_company p \<noteq> None \<and> \<not> binds_nul p \<and>
      (\<exists>l. p_link p = Some l \<and> l \<in> set (map col_link rows'))"
    using pst pres by fastforce
  have second: "run_inserts ?f ?g 0 ?ps (rows', False) =
      (replicate (length ?ps) (Fulfilled 0), (rows', False))"
    by (rule run_inserts_present[OF pst2 nf'])
  have o2: "outcome (saveJobs env rows' (Some js)) =
      Inr \<lparr>newJobs = 0, duplicates = int (length js)\<rparr>"
    using False nf second by (simp add: saveJobs_def no_faults_def Let_def count_new_replicate0)
  have d2: "db (saveJobs env rows' (Some js)) = rows'"
    using False nf second by (simp add: saveJobs_def no_faults_def Let_def)
  have one: "\<forall>j \<in> set js. length (rows_with_link (the (link j)) rows') = 1"
  proof
    fix j assume j: "j \<in> set js"
    with st have sj: "storable (clock_text env) j" by simp
    then obtain l where l: "link j = Some l" using job_params_storable by fastforce
    have "p_link (job_params (clock_text env) j) = Some l"
      using sj l job_params_storable by fastforce
    moreover have "job_params (clock_text env) j \<in> set ?ps" using j by simp
    ultimately have "l \<in> set (map col_link rows')" using pres by blast
    from filter_link_one[OF d this] l show "length (rows_with_link (the (link j)) rows') = 1"
      by (simp add: rows_with_link_def)
  qed
  show ?thesis unfolding first using o2 d2 one by simp
qed

text \<open>
  C1, as amended. Persisting is idempotent on \<open>link\<close> for the batches the database
  accepts. Whatever the batch and whatever fails on the way, a table that satisfies the
  UNIQUE constraint on \<open>link\<close> still satisfies it after \<open>saveJobs\<close>, and a link that was
  stored before has the same rows as before: no new row is created for it. When every
  job of a batch has a title, a company and a link, no text bound for it holds a NUL,
  and nothing fails or is refused (acquiring the client, BEGIN, each INSERT, COMMIT),
  then persisting the batch twice makes the second call report no insert and every job
  as a duplicate, leaves the table as the first call left it, and the table holds
  exactly one row for the link of each job.
\<close>

theorem saveJobs_idempotent_on_link:
  "unique_links store \<Longrightarrow>
     unique_links (db (saveJobs env store jobs)) \<and>
     (\<forall>l \<in> set (map col_link store).
         rows_with_link l (db (saveJobs env store jobs)) = rows_with_link l store) \<and>
     ((\<forall>j \<in> set js. storable (clock_text env) j) \<and> no_faults env \<longrightarrow>
        outcome (saveJobs env (db (saveJobs env store (Some js))) (Some js))
           = Inr \<lparr>newJobs = 0, duplicates = int (length js)\<rparr> \<and>
        db (saveJobs env (db (saveJobs env store (Some js))) (Some js))
           = db (saveJobs env store (Some js)) \<and>
        (\<forall>j \<in> set js.
            length (rows_with_link (the (link j)) (db (saveJobs env store (Some js)))) = 1))"
proof -
  assume u: "unique_links store"
  from saveJobs_extends[OF u, of env jobs] obtain added where
    a: "db (saveJobs env store jobs) = store @ added" "unique_links (store @ added)" by blast
  have 1: "unique_links (db (saveJobs env store jobs))" using a by simp
  have 2: "\<forall>l \<in> set (map col_link store).
         rows_with_link l (db (saveJobs env store jobs)) = rows_with_link l store"
    using a rows_with_link_old by metis
  show ?thesis using 1 2 saveJobs_twice[OF u] by blast
qed

theorem saveJobs_idempotent_on_link_witness:
  "unique_links [row_backend] \<and> storable (clock_text env_ok) job_backend \<and>
   storable (clock_text env_ok) job_frontend \<and> no_faults env_ok \<and>
   the (link job_backend) = col_link row_backend \<and>
   outcome (saveJobs env_ok [row_backend] (Some [job_backend, job_frontend]))
     = Inr \<lparr>newJobs = 1, duplicates = 1\<rparr> \<and>
   unique_links (db (saveJobs env_ok [row_backend] (Some [job_backend, job_frontend]))) \<and>
   rows_with_link (col_link row_backend)
       (db (saveJobs env_ok [row_backend] (Some [job_backend, job_frontend])))
     = [row_backend] \<and>
   outcome (saveJobs env_ok (db (saveJobs env_ok [row_backend] (Some [job_backend, job_frontend])))
              (Some [job_backend, job_frontend]))
     = Inr \<lparr>newJobs = 0, duplicates = 2\<rparr> \<and>
   db (saveJobs env_ok (db (saveJobs env_ok [row_backend] (Some [job_backend, job_frontend])))
         (Some [job_backend, job_frontend]))
     = db (saveJobs env_ok [row_backend] (Some [job_backend, job_frontend])) \<and>
   length (rows_with_link (the (link job_frontend))
             (db (saveJobs env_ok [row_backend] (Some [job_backend, job_frontend])))) = 1"
proof -
  have h1: "unique_links [row_backend]" by (simp add: unique_links_def)
  have h2: "storable (clock_text env_ok) job_backend \<and> storable (clock_text env_ok) job_frontend"
    by code_simp
  have h3: "no_faults env_ok" by (simp add: no_faults_def env_ok_def)
  have l: "the (link job_backend) = col_link row_backend"
    by (simp add: job_backend_def row_backend_def)
  have f: "outcome (saveJobs env_ok [row_backend] (Some [job_backend, job_frontend]))
             = Inr \<lparr>newJobs = 1, duplicates = 1\<rparr>"
    by code_simp
  have r: "rows_with_link (col_link row_backend) [row_backend] = [row_backend]"
    by (simp add: rows_with_link_def)
  from saveJobs_idempotent_on_link[OF h1, of env_ok "Some [job_backend, job_frontend]"
         "[job_backend, job_frontend]"] h2 h3 l f r
  show ?thesis using h1 by simp
qed

text \<open>
  The claim as it was stated, for every batch, fails in two ways. A job that the schema
  refuses, here one without a title, has no row after it was persisted twice. And a job
  that the database accepts, persisted in one batch with a job whose title holds a NUL,
  is reported as an insert by the first call and again by the second, and has no row
  after either: the rejected statement leaves the transaction failed, and its COMMIT
  stores nothing.
\<close>

theorem saveJobs_not_stored_twice:
  "db (saveJobs env_ok (db (saveJobs env_ok [] (Some [job_untitled]))) (Some [job_untitled])) = [] \<and>
   storable (clock_text env_ok) job_backend \<and>
   saveJobs env_ok [] (Some [job_backend, job_nul]) =
     \<lparr>outcome = Inr \<lparr>newJobs = 1, duplicates = 1\<rparr>, db = [],
      ops = [Connect, Begin, Insert (job_params (clock_text env_ok) job_backend),
             Insert (job_params (clock_text env_ok) job_nul), Commit, Release],
      logs = [LogSaved 1 1]\<rparr> \<and>
   outcome (saveJobs env_ok (db (saveJobs env_ok [] (Some [job_backend, job_nul])))
              (Some [job_backend, job_nul]))
     = Inr \<lparr>newJobs = 1, duplicates = 1\<rparr> \<and>
   rows_with_link (the (link job_backend))
     (db (saveJobs env_ok (db (saveJobs env_ok [] (Some [job_backend, job_nul])))
            (Some [job_backend, job_nul]))) = []"
  by code_simp

subsection \<open>The counts\<close>

lemma count_new_bounds: "0 \<le> count_new rs \<and> count_new rs \<le> int (length rs)"
  by (simp add: count_new_def)

lemma run_inserts_count_new:
  "run_inserts f g i ps st = (rs, st') \<Longrightarrow> count_new rs \<le> int (length ps)"
  using count_new_bounds[of rs] run_inserts_length[of f g i ps st] by simp

text \<open>
  C2. For the empty batch \<open>saveJobs\<close> returns zero counts and issues no operation on the
  database, which it leaves as it is. A crawl request whose crawler finishes with no job
  is answered with the report of zero jobs, zero inserted and zero duplicates, not with
  an error, and it issues no operation on the database either.
\<close>

theorem saveJobs_empty_batch:
  "saveJobs env store (Some []) =
     \<lparr>outcome = Inr \<lparr>newJobs = 0, duplicates = 0\<rparr>, db = store, ops = [], logs = []\<rparr> \<and>
   (truthy (b_role body) \<and> truthy (b_location body) \<and>
    switch_source srv (source_or_default (b_source body)) = Inr (Some s) \<and>
    call_crawler crawl s body = Inr [] \<longrightarrow>
      crawl_route srv crawl env store body =
        \<lparr>reply = CrawlDone \<lparr>rep_source = source_or_default (b_source body),
                              rep_role = b_role body, rep_location = b_location body,
                              totalJobs = 0,
                              rep_counts = \<lparr>newJobs = 0, duplicates = 0\<rparr>,
                              rep_jobs = []\<rparr>,
         crawled = [s], store_ops = [], store_after = store\<rparr>)"
proof -
  have e: "saveJobs env store (Some []) =
     \<lparr>outcome = Inr \<lparr>newJobs = 0, duplicates = 0\<rparr>, db = store, ops = [], logs = []\<rparr>"
    by (simp add: saveJobs_def zero_counts_def)
  show ?thesis
    unfolding e by (simp add: crawl_route_def e)
qed

theorem saveJobs_empty_batch_witness:
  "truthy (b_role crawl_body_plain) \<and> truthy (b_location crawl_body_plain) \<and>
   switch_source FirstServer (source_or_default (b_source crawl_body_plain)) = Inr (Some Naukri) \<and>
   call_crawler crawl_nothing Naukri crawl_body_plain = Inr [] \<and>
   crawl_status (reply (crawl_route FirstServer crawl_nothing env_lost [] crawl_body_plain)) = 200 \<and>
   store_ops (crawl_route FirstServer crawl_nothing env_lost [] crawl_body_plain) = [] \<and>
   ops (saveJobs env_lost [] (Some [])) = []"
proof -
  have h: "truthy (b_role crawl_body_plain) \<and> truthy (b_location crawl_body_plain) \<and>
      switch_source FirstServer (source_or_default (b_source crawl_body_plain))
        = Inr (Some Naukri) \<and>
      call_crawler crawl_nothing Naukri crawl_body_plain = Inr []"
    by code_simp
  from saveJobs_empty_batch[of env_lost "[]" crawl_body_plain FirstServer Naukri crawl_nothing] h
  show ?thesis by simp
qed

text \<open>
  C3, at the failing input. The driver rejects the first INSERT of a batch of two new
  jobs and the second one inserts a row. The call is not aborted, and the one insert is
  counted; but the rejected statement is reported as a duplicate although no statement
  met a conflict on \<open>link\<close>. The same happens to a job object without a title, whose
  INSERT violates NOT NULL.
\<close>

theorem saveJobs_rejected_counted_as_duplicate:
  "outcome (saveJobs env_first_rejected [] (Some [job_backend, job_frontend]))
     = Inr \<lparr>newJobs = 1, duplicates = 1\<rparr> \<and>
   settle env_first_rejected [] [job_backend, job_frontend] = [Rejected, Fulfilled 1] \<and>
   count_settled (Fulfilled 0) (settle env_first_rejected [] [job_backend, job_frontend]) = 0 \<and>
   outcome (saveJobs env_ok [] (Some [job_untitled])) = Inr \<lparr>newJobs = 0, duplicates = 1\<rparr> \<and>
   settle env_ok [] [job_untitled] = [Rejected]"
  by code_simp

theorem saveJobs_rejected_counted_as_duplicate_witness:
  "outcome (saveJobs env_first_rejected [] (Some [job_backend, job_frontend]))
     \<noteq> Inr \<lparr>newJobs = 1,
             duplicates = count_settled (Fulfilled 0)
               (settle env_first_rejected [] [job_backend, job_frontend])\<rparr>"
  using saveJobs_rejected_counted_as_duplicate by (simp add: count_settled_def)

text \<open>
  What holds of the counts whenever the call reaches its \<open>return\<close> after COMMIT: the
  new jobs are the statements fulfilled with one affected row, and the duplicates are
  all the others, conflicts and rejected statements alike.
\<close>

lemma count_settled_partition:
  "\<forall>r \<in> set rs. r = Rejected \<or> r = Fulfilled 0 \<or> r = Fulfilled 1 \<Longrightarrow>
   count_settled (Fulfilled 1) rs + count_settled (Fulfilled 0) rs + count_settled Rejected rs
     = int (length rs)"
  by (induction rs) (auto simp: count_settled_def)

lemma run_inserts_settled:
  "r \<in> set (fst (run_inserts f g i ps st)) \<Longrightarrow> r = Rejected \<or> r = Fulfilled 0 \<or> r = Fulfilled 1"
proof (induction ps arbitrary: i st)
  case Nil
  then show ?case by simp
next
  case (Cons p ps)
  obtain rows a where st: "st = (rows, a)" by (cases st)
  obtain r0 rows' a' where s: "insert_stmt (f i) (g i) p (rows, a) = (r0, (rows', a'))"
    by (metis prod.exhaust)
  from insert_stmt_cases[OF s] have r0: "r0 = Rejected \<or> r0 = Fulfilled 0 \<or> r0 = Fulfilled 1"
    by auto
  from Cons.prems have "r = r0 \<or> r \<in> set (fst (run_inserts f g (Suc i) ps (rows', a')))"
    by (simp add: fst_run_inserts_Cons st s del: run_inserts.simps(2))
  with r0 Cons.IH show ?case by blast
qed

lemma saveJobs_settled_counts:
  assumes "js \<noteq> []" "\<not> connect_fails env" "\<not> begin_fails env" "\<not> commit_fails env"
  shows "outcome (saveJobs env store (Some js)) =
           Inr \<lparr>newJobs = count_settled (Fulfilled 1) (settle env store js),
                duplicates = count_settled (Fulfilled 0) (settle env store js)
                             + count_settled Rejected (settle env store js)\<rparr>"
proof -
  let ?rs = "settle env store js"
  have len: "length ?rs = length js" by (simp add: settle_def run_inserts_length)
  have "\<forall>r \<in> set ?rs. r = Rejected \<or> r = Fulfilled 0 \<or> r = Fulfilled 1"
    using run_inserts_settled by (auto simp: settle_def)
  from count_settled_partition[OF this] len
  have p: "int (length js) - count_settled (Fulfilled 1) ?rs
             = count_settled (Fulfilled 0) ?rs + count_settled Rejected ?rs" by simp
  have "outcome (saveJobs env store (Some js)) =
          Inr \<lparr>newJobs = count_new ?rs, duplicates = int (length js) - count_new ?rs\<rparr>"
    using assms by (simp add: saveJobs_def settle_def Let_def split: prod.splits)
  moreover have "count_new ?rs = count_settled (Fulfilled 1) ?rs"
    by (simp add: count_new_def count_settled_def)
  ultimately show ?thesis using p by simp
qed

text \<open>
  C4, as amended. When BEGIN or COMMIT of a batch fails and the ROLLBACK that follows
  succeeds, \<open>saveJobs\<close> leaves the table as it was, issues the ROLLBACK, logs the error and
  returns zero counts to its caller. A failure to acquire the client happens before the
  \<open>try\<close> block: it is thrown to the caller, with nothing logged.
\<close>

theorem saveJobs_failed_transaction:
  "js \<noteq> [] \<Longrightarrow>
   (\<not> connect_fails env \<and> (begin_fails env \<or> commit_fails env) \<and> \<not> rollback_fails env \<longrightarrow>
      outcome (saveJobs env store (Some js)) = Inr \<lparr>newJobs = 0, duplicates = 0\<rparr> \<and>
      db (saveJobs env store (Some js)) = store \<and>
      Rollback \<in> set (ops (saveJobs env store (Some js))) \<and>
      logs (saveJobs env store (Some js)) = [LogSaveError]) \<and>
   (connect_fails env \<longrightarrow>
      saveJobs env store (Some js) =
        \<lparr>outcome = Inl ConnectError, db = store, ops = [Connect], logs = []\<rparr>)"
  by (auto simp: saveJobs_def save_catch_def zero_counts_def Let_def split: prod.splits)

theorem saveJobs_failed_transaction_witness:
  "[job_backend] \<noteq> [] \<and> \<not> connect_fails env_commit_fails \<and> commit_fails env_commit_fails \<and>
   \<not> rollback_fails env_commit_fails \<and>
   saveJobs env_commit_fails [row_frontend] (Some [job_backend]) =
     \<lparr>outcome = Inr \<lparr>newJobs = 0, duplicates = 0\<rparr>, db = [row_frontend],
      ops = [Connect, Begin, Insert (job_params (clock_text env_commit_fails) job_backend),
             Commit, Rollback, Release],
      logs = [LogSaveError]\<rparr> \<and>
   \<not> connect_fails env_begin_fails \<and> begin_fails env_begin_fails \<and>
   \<not> rollback_fails env_begin_fails \<and>
   saveJobs env_begin_fails [row_frontend] (Some [job_backend]) =
     \<lparr>outcome = Inr \<lparr>newJobs = 0, duplicates = 0\<rparr>, db = [row_frontend],
      ops = [Connect, Begin, Rollback, Release], logs = [LogSaveError]\<rparr> \<and>
   connect_fails env_unreachable \<and>
   outcome (saveJobs env_unreachable [row_frontend] (Some [job_backend])) = Inl ConnectError"
proof -
  have h: "\<not> connect_fails env_commit_fails \<and> commit_fails env_commit_fails \<and>
      \<not> rollback_fails env_commit_fails \<and> \<not> connect_fails env_begin_fails \<and>
      begin_fails env_begin_fails \<and> \<not> rollback_fails env_begin_fails \<and>
      connect_fails env_unreachable"
    by (simp add: env_commit_fails_def env_begin_fails_def env_unreachable_def env_ok_def)
  have n: "[job_backend] \<noteq> []" by simp
  have c: "saveJobs env_commit_fails [row_frontend] (Some [job_backend]) =
     \<lparr>outcome = Inr \<lparr>newJobs = 0, duplicates = 0\<rparr>, db = [row_frontend],
      ops = [Connect, Begin, Insert (job_params (clock_text env_commit_fails) job_backend),
             Commit, Rollback, Release],
      logs = [LogSaveError]\<rparr>"
    by code_simp
  have b: "saveJobs env_begin_fails [row_frontend] (Some [job_backend]) =
     \<lparr>outcome = Inr \<lparr>newJobs = 0, duplicates = 0\<rparr>, db = [row_frontend],
      ops = [Connect, Begin, Rollback, Release], logs = [LogSaveError]\<rparr>"
    by code_simp
  from saveJobs_failed_transaction[OF n, of env_commit_fails "[row_frontend]"]
       saveJobs_failed_transaction[OF n, of env_begin_fails "[row_frontend]"]
       saveJobs_failed_transaction[OF n, of env_unreachable "[row_frontend]"] h c b
  show ?thesis by simp
qed

text \<open>
  The claim as it was stated fails where the hard error is the loss of the database:
  when no client can be acquired, and when the connection is gone for BEGIN and for the
  ROLLBACK alike, \<open>saveJobs\<close> throws instead of returning zero counts.
\<close>

theorem saveJobs_hard_error_thrown:
  "outcome (saveJobs env_unreachable [] (Some [job_backend])) = Inl ConnectError \<and>
   outcome (saveJobs env_lost [] (Some [job_backend])) = Inl QueryError \<and>
   logs (saveJobs env_lost [] (Some [job_backend])) = []"
  by code_simp

text \<open>
  C10. On the path of \<open>saveJobs\<close> that issues COMMIT and no ROLLBACK, whatever became of
  the single statements, the two counts add up to the length of the batch and the number
  of new jobs lies between zero and that length.
\<close>

theorem saveJobs_counts_add_up:
  "Commit \<in> set (ops (saveJobs env store jobs)) \<Longrightarrow>
   Rollback \<notin> set (ops (saveJobs env store jobs)) \<Longrightarrow>
   \<exists>js c. jobs = Some js \<and> outcome (saveJobs env store jobs) = Inr c \<and>
     newJobs c + duplicates c = int (length js) \<and> 0 \<le> newJobs c \<and> newJobs c \<le> int (length js)"
proof -
  assume c: "Commit \<in> set (ops (saveJobs env store jobs))"
    and r: "Rollback \<notin> set (ops (saveJobs env store jobs))"
  from c obtain js where js: "jobs = Some js" "js \<noteq> []"
    by (cases jobs) (auto simp: saveJobs_def split: if_splits)
  from c r js have ok: "\<not> connect_fails env" "\<not> begin_fails env" "\<not> commit_fails env"
    by (auto simp: saveJobs_def save_catch_def Let_def split: if_splits prod.splits)
  obtain rs st' where run:
    "run_inserts (insert_fails env) (insert_refused env) 0
          (map (job_params (clock_text env)) js) (store, False)
       = (rs, st')"
    by (metis prod.exhaust)
  have o: "outcome (saveJobs env store jobs) =
      Inr \<lparr>newJobs = count_new rs, duplicates = int (length js) - count_new rs\<rparr>"
    using js ok run by (simp add: saveJobs_def Let_def split: prod.splits)
  have "count_new rs \<le> int (length js)" using run_inserts_count_new[OF run] by simp
  with o js count_new_bounds[of rs] show ?thesis by simp
qed

theorem saveJobs_counts_add_up_witness:
  "Commit \<in> set (ops (saveJobs env_first_rejected [] (Some [job_backend, job_frontend, job_frontend]))) \<and>
   Rollback \<notin> set (ops (saveJobs env_first_rejected [] (Some [job_backend, job_frontend, job_frontend]))) \<and>
   (\<exists>c. outcome (saveJobs env_first_rejected [] (Some [job_backend, job_frontend, job_frontend])) = Inr c \<and>
        newJobs c + duplicates c = 3 \<and> 0 \<le> newJobs c \<and> newJobs c \<le> 3)"
proof -
  have h1: "Commit \<in> set (ops (saveJobs env_first_rejected [] (Some [job_backend, job_frontend, job_frontend])))"
    by code_simp
  have h2: "Rollback \<notin> set (ops (saveJobs env_first_rejected [] (Some [job_backend, job_frontend, job_frontend])))"
    by code_simp
  from saveJobs_counts_add_up[OF h1 h2] h1 h2 show ?thesis by auto
qed

section \<open>POST /api/crawl\<close>

text \<open>
  Where the route answers 400: a falsy role or location, and a source that is a string
  outside the cases of the \<open>switch\<close>. No crawler is started and nothing is persisted.
\<close>

lemma crawl_route_bad_request:
  "(\<not> truthy (b_role body) \<or> \<not> truthy (b_location body) \<longrightarrow>
      crawl_route srv crawl env store body =
        \<lparr>reply = CrawlRejected ''Role and location are required'', crawled = [],
         store_ops = [], store_after = store\<rparr>) \<and>
   (truthy (b_role body) \<and> truthy (b_location body) \<and> b_source body = JStr s \<and>
    site_of srv (toLowerCase s) = None \<longrightarrow>
      crawl_route srv crawl env store body =
        \<lparr>reply = CrawlRejected (invalid_source srv), crawled = [], store_ops = [],
         store_after = store\<rparr>)"
  by (auto simp: crawl_route_def switch_source_def source_or_default_def)

lemma crawl_route_bad_request_example:
  "crawl_status (reply (crawl_route FirstServer crawl_two env_ok [] crawl_body_monster)) = 400 \<and>
   crawled (crawl_route FirstServer crawl_two env_ok [] crawl_body_monster) = [] \<and>
   crawl_status (reply (crawl_route SecondServer crawl_two env_ok []
                          (crawl_body_plain\<lparr>b_source := JStr ''LinkedIn''\<rparr>))) = 400 \<and>
   crawl_status (reply (crawl_route FirstServer crawl_two env_ok []
                          (crawl_body_plain\<lparr>b_location := JStr ''''\<rparr>))) = 400"
  by code_simp

text \<open>
  C7, at the failing input. The body gives a role and a location and \<open>"source": null\<close>.
  The default of the destructuring pattern does not apply to \<open>null\<close>, \<open>source.toLowerCase()\<close>
  throws, and the \<open>catch\<close> block of the route answers 500, on both servers. No crawler
  is started and nothing is persisted.
\<close>

theorem crawl_route_null_source:
  "crawl_route FirstServer crawl_two env_ok [] crawl_body_null_source =
     \<lparr>reply = CrawlFailed TypeError, crawled = [], store_ops = [], store_after = []\<rparr> \<and>
   crawl_route SecondServer crawl_two env_ok [] crawl_body_null_source =
     \<lparr>reply = CrawlFailed TypeError, crawled = [], store_ops = [], store_after = []\<rparr> \<and>
   crawl_status (CrawlFailed TypeError) = 500"
  by code_simp

theorem crawl_route_null_source_witness:
  "crawl_status (reply (crawl_route FirstServer crawl_two env_ok [] crawl_body_null_source)) \<noteq> 400"
  using crawl_route_null_source by simp

section \<open>Filters\<close>

lemma like_match_percent: "like_match ''%'' s"
  by (induction s) auto

lemma like_match_plain_prefix:
  "plain_text x \<Longrightarrow> like_match (x @ ''%'') s = prefix x s"
proof (induction x arbitrary: s)
  case Nil
  then show ?case by (simp add: like_match_percent)
next
  case (Cons a x)
  then have a: "a \<noteq> CHR ''%''" "a \<noteq> CHR ''_''" "a \<noteq> CHR 0x5C" and x: "plain_text x"
    by (simp_all add: plain_text_def)
  show ?case
  proof (cases s)
    case Nil
    with a show ?thesis by simp
  next
    case (Cons c cs)
    with a Cons.IH[OF x, of cs] show ?thesis by auto
  qed
qed

lemma like_match_contains:
  "plain_text x \<Longrightarrow> like_match (''%'' @ x @ ''%'') s = js_includes s x"
proof (induction s)
  case Nil
  then show ?case using like_match_plain_prefix[of x "[]"] by simp
next
  case (Cons c cs)
  then show ?case using like_match_plain_prefix[of x "c # cs"] by simp
qed

lemma lower_char_cases: "lower_char c = c \<or> 97 \<le> (of_char (lower_char c) :: nat)"
proof -
  let ?n = "of_char c :: nat"
  show ?thesis
  proof (cases "(65 \<le> ?n \<and> ?n \<le> 90) \<or> (192 \<le> ?n \<and> ?n \<le> 222 \<and> ?n \<noteq> 215)")
    case True
    then have l: "lower_char c = char_of (?n + 32)" by (simp add: lower_char_def Let_def)
    have "(of_char (char_of (?n + 32)) :: nat) = (?n + 32) mod 256" by simp
    also from True have "\<dots> = ?n + 32" by auto
    finally have "(of_char (lower_char c) :: nat) = ?n + 32" unfolding l .
    with True have "97 \<le> (of_char (lower_char c) :: nat)" by auto
    then show ?thesis by blast
  next
    case False
    then show ?thesis by (simp add: lower_char_def Let_def)
  qed
qed

lemma plain_text_lower: "plain_text x \<Longrightarrow> plain_text (toLowerCase x)"
proof (induction x)
  case Nil
  then show ?case by (simp add: toLowerCase_def plain_text_def)
next
  case (Cons a x)
  have "lower_char a \<noteq> CHR ''%'' \<and> lower_char a \<noteq> CHR ''_'' \<and> lower_char a \<noteq> CHR 0x5C"
  proof (cases "lower_char a = a")
    case True
    with Cons.prems show ?thesis by (simp add: plain_text_def)
  next
    case False
    with lower_char_cases[of a] have "97 \<le> (of_char (lower_char a) :: nat)" by simp
    then show ?thesis by auto
  qed
  with Cons show ?case by (simp add: toLowerCase_def plain_text_def)
qed

lemma lower_pattern: "toLowerCase (''%'' @ x @ ''%'') = ''%'' @ toLowerCase x @ ''%''"
  by (simp add: toLowerCase_def lower_char_def)

lemma ilike_contains:
  "plain_text x \<Longrightarrow>
     ilike s (''%'' @ x @ ''%'') = js_includes (toLowerCase s) (toLowerCase x)"
  unfolding ilike_def lower_pattern by (rule like_match_contains[OF plain_text_lower])

lemma js_includes_empty: "js_includes s []"
  by (cases s) simp_all

lemma ilike_clause_contains:
  "plain_filter v \<Longrightarrow> ilike_clause v s = contains_ci v s"
proof (cases v)
  case None
  then show ?thesis by (simp add: ilike_clause_def contains_ci_def)
next
  case (Some x)
  assume "plain_filter v"
  with Some have p: "plain_text x" by (simp add: plain_filter_def)
  show ?thesis
  proof (cases "x = []")
    case True
    with Some show ?thesis
      by (simp add: ilike_clause_def contains_ci_def toLowerCase_def js_includes_empty)
  next
    case False
    with Some ilike_contains[OF p, of s] show ?thesis
      by (simp add: ilike_clause_def contains_ci_def)
  qed
qed

text \<open>\<open>includes\<close> is the substring relation.\<close>

lemma js_includes_iff: "js_includes s x = (\<exists>a b. s = a @ x @ b)"
proof (induction s)
  case Nil
  then show ?case by simp
next
  case (Cons c cs)
  show ?case
  proof
    assume "js_includes (c # cs) x"
    then consider "prefix x (c # cs)" | "js_includes cs x" by auto
    then show "\<exists>a b. c # cs = a @ x @ b"
    proof cases
      case 1
      then obtain b where "c # cs = x @ b" by (auto simp: prefix_def)
      then have "c # cs = [] @ x @ b" by simp
      then show ?thesis by blast
    next
      case 2
      with Cons.IH obtain a b where "cs = a @ x @ b" by blast
      then have "c # cs = (c # a) @ x @ b" by simp
      then show ?thesis by blast
    qed
  next
    assume "\<exists>a b. c # cs = a @ x @ b"
    then obtain a b where ab: "c # cs = a @ x @ b" by blast
    show "js_includes (c # cs) x"
    proof (cases a)
      case Nil
      with ab have "prefix x (c # cs)" by (simp add: prefix_def)
      then show ?thesis by simp
    next
      case (Cons a0 as)
      with ab have "cs = as @ x @ b" by simp
      with Cons.IH have "js_includes cs x" by blast
      then show ?thesis by simp
    qed
  qed
qed

lemma posted_desc_order: "posted_desc (order_by_posted_date_desc rows)"
proof -
  have "sorted (map col_posted_date (sort_key col_posted_date rows))" by simp
  then have "sorted_wrt (\<lambda>a b. col_posted_date a \<le> col_posted_date b)
               (sort_key col_posted_date rows)"
    by (simp add: sorted_wrt_map)
  then show ?thesis
    by (simp add: posted_desc_def order_by_posted_date_desc_def sorted_wrt_rev)
qed

lemma posted_desc_take_drop: "posted_desc rows \<Longrightarrow> posted_desc (take n (drop m rows))"
  by (simp add: posted_desc_def sorted_wrt_take sorted_wrt_drop)

lemma set_order: "set (order_by_posted_date_desc rows) = set rows"
  by (simp add: order_by_posted_date_desc_def)

lemma order_empty: "(order_by_posted_date_desc rows = []) = (rows = [])"
  using arg_cong[OF set_order[of rows], of "\<lambda>S. S = {}"] by simp

section \<open>GET /api/jobs\<close>

text \<open>
  C8, as amended. The three filters are ILIKE patterns \<open>%value%\<close>, all of which a row has
  to match. For values without the pattern characters \<open>%\<close>, \<open>_\<close> and backslash this is
  the case-insensitive substring match of the title, the location and the source. A
  request whose limit and offset are not negative, and whose queries do not fail, is
  answered with a page. The page is the slice, by offset and limit, of the stored rows
  that match, each as often as it is stored, in descending order of \<open>posted_date\<close>: every
  row of the page is a stored row that matches, a first page as long as the limit allows
  holds all of them, and \<open>total\<close> counts the stored rows that match the same filters.
\<close>

theorem jobs_route_filters:
  "(plain_filter (q_role q) \<and> plain_filter (q_location q) \<and> plain_filter (q_source q) \<longrightarrow>
      where_clauses (q_role q) (q_location q) (q_source q) row =
        substring_filter (q_role q) (q_location q) (q_source q) row) \<and>
   (jobs_route False store q = JobsPage p \<longrightarrow>
      (\<forall>r \<in> set (pg_jobs p).
          r \<in> set store \<and> where_clauses (q_role q) (q_location q) (q_source q) r) \<and>
      posted_desc (pg_jobs p) \<and>
      pg_count p = int (length (pg_jobs p)) \<and>
      pg_total p =
        int (length (filter (where_clauses (q_role q) (q_location q) (q_source q)) store))) \<and>
   (0 \<le> query_limit q \<and> 0 \<le> (query_page q - 1) * query_limit q \<longrightarrow>
      (\<exists>p'. jobs_route False store q = JobsPage p')) \<and>
   (jobs_route False store q = JobsPage p \<longrightarrow>
      (\<exists>ordered. mset ordered = mset (matching_rows store q) \<and> posted_desc ordered \<and>
         pg_jobs p = take (nat (query_limit q))
                       (drop (nat ((query_page q - 1) * query_limit q)) ordered)) \<and>
      (query_page q = 1 \<and> pg_total p \<le> query_limit q \<longrightarrow>
         mset (pg_jobs p) = mset (matching_rows store q)))"
proof -
  let ?w = "where_clauses (q_role q) (q_location q) (q_source q)"
  let ?o = "order_by_posted_date_desc (filter ?w store)"
  have 1: "plain_filter (q_role q) \<and> plain_filter (q_location q) \<and> plain_filter (q_source q) \<longrightarrow>
      ?w row = substring_filter (q_role q) (q_location q) (q_source q) row"
    by (simp add: where_clauses_def substring_filter_def ilike_clause_contains)
  have mo: "mset ?o = mset (matching_rows store q)"
    by (simp add: order_by_posted_date_desc_def matching_rows_def)
  have 2: "jobs_route False store q = JobsPage p \<longrightarrow>
      (\<forall>r \<in> set (pg_jobs p). r \<in> set store \<and> ?w r) \<and> posted_desc (pg_jobs p) \<and>
      pg_count p = int (length (pg_jobs p)) \<and> pg_total p = int (length (filter ?w store))"
  proof
    assume a: "jobs_route False store q = JobsPage p"
    define page where "page = (case q_page q of None \<Rightarrow> 1 | Some p \<Rightarrow> p)"
    define limit where "limit = (case q_limit q of None \<Rightarrow> 20 | Some l \<Rightarrow> l)"
    define jobs where
      "jobs = take (nat limit) (drop (nat ((page - 1) * limit))
                (order_by_posted_date_desc (filter ?w store)))"
    from a have j: "pg_jobs p = jobs" and c: "pg_count p = int (length jobs)"
      and t: "pg_total p = int (length (filter ?w store))"
      by (auto simp: jobs_route_def Let_def page_def limit_def jobs_def split: if_splits)
    have "set jobs \<subseteq> set (order_by_posted_date_desc (filter ?w store))"
      unfolding jobs_def by (meson set_take_subset set_drop_subset subset_trans)
    then have s: "\<forall>r \<in> set jobs. r \<in> set store \<and> ?w r" by (auto simp: set_order)
    have d: "posted_desc jobs"
      unfolding jobs_def by (rule posted_desc_take_drop[OF posted_desc_order])
    from j c t s d show "(\<forall>r \<in> set (pg_jobs p). r \<in> set store \<and> ?w r) \<and>
      posted_desc (pg_jobs p) \<and> pg_count p = int (length (pg_jobs p)) \<and>
      pg_total p = int (length (filter ?w store))" by simp
  qed
  have 3: "0 \<le> query_limit q \<and> 0 \<le> (query_page q - 1) * query_limit q \<longrightarrow>
      (\<exists>p'. jobs_route False store q = JobsPage p')"
    by (simp add: jobs_route_def Let_def query_limit_def query_page_def)
  have 4: "jobs_route False store q = JobsPage p \<longrightarrow>
      (\<exists>ordered. mset ordered = mset (matching_rows store q) \<and> posted_desc ordered \<and>
         pg_jobs p = take (nat (query_limit q))
                       (drop (nat ((query_page q - 1) * query_limit q)) ordered)) \<and>
      (query_page q = 1 \<and> pg_total p \<le> query_limit q \<longrightarrow>
         mset (pg_jobs p) = mset (matching_rows store q))"
  proof
    assume a: "jobs_route False store q = JobsPage p"
    from a have j: "pg_jobs p = take (nat (query_limit q))
                       (drop (nat ((query_page q - 1) * query_limit q)) ?o)"
      and t: "pg_total p = int (length (filter ?w store))"
      by (auto simp: jobs_route_def Let_def query_limit_def query_page_def split: if_splits)
    have l: "length ?o = length (filter ?w store)"
      by (simp add: order_by_posted_date_desc_def)
    have e: "\<exists>ordered. mset ordered = mset (matching_rows store q) \<and> posted_desc ordered \<and>
         pg_jobs p = take (nat (query_limit q))
                       (drop (nat ((query_page q - 1) * query_limit q)) ordered)"
      using mo posted_desc_order j by blast
    have f: "query_page q = 1 \<and> pg_total p \<le> query_limit q \<longrightarrow>
         mset (pg_jobs p) = mset (matching_rows store q)"
    proof
      assume h: "query_page q = 1 \<and> pg_total p \<le> query_limit q"
      with t have "int (length (filter ?w store)) \<le> query_limit q" by simp
      then have "length (filter ?w store) \<le> nat (query_limit q)" by linarith
      with l have "length ?o \<le> nat (query_limit q)" by simp
      with j h have "pg_jobs p = ?o" by simp
      with mo show "mset (pg_jobs p) = mset (matching_rows store q)" by simp
    qed
    from e f show "(\<exists>ordered. mset ordered = mset (matching_rows store q) \<and> posted_desc ordered \<and>
         pg_jobs p = take (nat (query_limit q))
                       (drop (nat ((query_page q - 1) * query_limit q)) ordered)) \<and>
      (query_page q = 1 \<and> pg_total p \<le> query_limit q \<longrightarrow>
         mset (pg_jobs p) = mset (matching_rows store q))" by blast
  qed
  from 1 2 3 4 show ?thesis by blast
qed

theorem jobs_route_filters_witness:
  "plain_filter (q_role (query_role ''ENGINEER'')) \<and>
   plain_filter (q_location (query_role ''ENGINEER'')) \<and>
   plain_filter (q_source (query_role ''ENGINEER'')) \<and>
   jobs_route False [row_backend, row_nurse, row_frontend] (query_role ''ENGINEER'') =
     JobsPage \<lparr>pg_count = 2, pg_total = 2, pg_page = 1, pg_pages = Some 1,
               pg_jobs = [row_frontend, row_backend]\<rparr> \<and>
   jobs_route False [row_backend, row_nurse, row_frontend] (query_role ''backend'') =
     JobsPage \<lparr>pg_count = 1, pg_total = 1, pg_page = 1, pg_pages = Some 1,
               pg_jobs = [row_backend]\<rparr> \<and>
   posted_desc [row_frontend, row_backend] \<and>
   where_clauses (Some ''ENGINEER'') None None row_backend =
     substring_filter (Some ''ENGINEER'') None None row_backend \<and>
   query_page (query_role ''ENGINEER'') = 1 \<and> query_limit (query_role ''ENGINEER'') = 20 \<and>
   mset [row_frontend, row_backend] =
     mset (matching_rows [row_backend, row_nurse, row_frontend] (query_role ''ENGINEER''))"
proof -
  have h: "plain_filter (q_role (query_role ''ENGINEER'')) \<and>
      plain_filter (q_location (query_role ''ENGINEER'')) \<and>
      plain_filter (q_source (query_role ''ENGINEER''))"
    by (simp add: query_role_def plain_filter_def plain_text_def)
  have e: "jobs_route False [row_backend, row_nurse, row_frontend] (query_role ''ENGINEER'') =
      JobsPage \<lparr>pg_count = 2, pg_total = 2, pg_page = 1, pg_pages = Some 1,
                pg_jobs = [row_frontend, row_backend]\<rparr>"
    by code_simp
  have b: "jobs_route False [row_backend, row_nurse, row_frontend] (query_role ''backend'') =
      JobsPage \<lparr>pg_count = 1, pg_total = 1, pg_page = 1, pg_pages = Some 1,
                pg_jobs = [row_backend]\<rparr>"
    by code_simp
  have q: "q_role (query_role ''ENGINEER'') = Some ''ENGINEER'' \<and>
      q_location (query_role ''ENGINEER'') = None \<and> q_source (query_role ''ENGINEER'') = None"
    by (simp add: query_role_def)
  have n: "query_page (query_role ''ENGINEER'') = 1 \<and> query_limit (query_role ''ENGINEER'') = 20"
    by (simp add: query_role_def query_page_def query_limit_def)
  from jobs_route_filters[of "query_role ''ENGINEER''" row_backend
         "[row_backend, row_nurse, row_frontend]"
         "\<lparr>pg_count = 2, pg_total = 2, pg_page = 1, pg_pages = Some 1,
           pg_jobs = [row_frontend, row_backend]\<rparr>"] h e b q n
  show ?thesis by simp
qed

text \<open>
  The claim as it was stated fails for a value with a pattern character: the role
  \<open>b_ckend\<close> is no substring of the title \<open>Backend Engineer\<close>, in any case of the letters,
  and the route returns that row.
\<close>

theorem jobs_route_pattern_character:
  "jobs_route False [row_backend, row_nurse, row_frontend] (query_role ''b_ckend'') =
     JobsPage \<lparr>pg_count = 1, pg_total = 1, pg_page = 1, pg_pages = Some 1,
               pg_jobs = [row_backend]\<rparr> \<and>
   \<not> js_includes (toLowerCase (col_title row_backend)) (toLowerCase ''b_ckend'')"
  by code_simp

section \<open>POST /api/alert\<close>

lemma alert_route_cases:
  "alert_route mail_fails store body =
     (if \<not> truthy (a_email body) \<or> \<not> truthy (a_role body)
      then \<lparr>alert_reply = AlertRejected ''Email and role are required'', deliveries = []\<rparr>
      else \<lparr>alert_reply = AlertFailed, deliveries = []\<rparr>)"
  by (simp add: alert_route_def alert_query_def)

text \<open>
  C9. The route selects nothing and never answers \<open>sent: 0\<close>. A request with an email and
  a role reaches the SELECT, which compares the text column \<open>posted_date\<close> with a
  timestamp; the database rejects the statement, and the route answers with status 500
  and hands nothing to the mail transport, whatever is stored, also when no stored
  posting matches the role. A request without an email or a role is answered with
  status 400. So no request is answered with a number of postings sent.
\<close>

theorem alert_route_query_rejected:
  "(truthy (a_email body) \<and> truthy (a_role body) \<longrightarrow>
      alert_query store (alert_params body) = Inl QueryError \<and>
      alert_route mail_fails store body = \<lparr>alert_reply = AlertFailed, deliveries = []\<rparr> \<and>
      alert_status (alert_reply (alert_route mail_fails store body)) = 500) \<and>
   (\<not> truthy (a_email body) \<or> \<not> truthy (a_role body) \<longrightarrow>
      alert_status (alert_reply (alert_route mail_fails store body)) = 400) \<and>
   alert_reply (alert_route mail_fails store body) \<noteq> AlertSent n \<and>
   deliveries (alert_route mail_fails store body) = []"
  by (simp add: alert_route_cases alert_query_def)

theorem alert_route_query_rejected_witness:
  "truthy (a_email (alert_body_role ''Plumber'')) \<and> truthy (a_role (alert_body_role ''Plumber'')) \<and>
   filter (substring_filter (Some ''Plumber'') None None) [row_backend, row_nurse, row_frontend] = [] \<and>
   alert_route False [row_backend, row_nurse, row_frontend] (alert_body_role ''Plumber'')
     = \<lparr>alert_reply = AlertFailed, deliveries = []\<rparr> \<and>
   alert_status (alert_reply
     (alert_route False [row_backend, row_nurse, row_frontend] (alert_body_role ''Plumber''))) = 500 \<and>
   filter (substring_filter (Some ''Engineer'') None None) [row_backend, row_nurse, row_frontend]
     = [row_backend, row_frontend] \<and>
   alert_route False [row_backend, row_nurse, row_frontend] (alert_body_role ''Engineer'')
     = \<lparr>alert_reply = AlertFailed, deliveries = []\<rparr>"
proof -
  have h: "truthy (a_email (alert_body_role r)) \<and> truthy (a_role (alert_body_role r)) = (r \<noteq> [])"
    for r by (simp add: alert_body_role_def)
  have f: "filter (substring_filter (Some ''Plumber'') None None)
             [row_backend, row_nurse, row_frontend] = [] \<and>
      filter (substring_filter (Some ''Engineer'') None None)
             [row_backend, row_nurse, row_frontend] = [row_backend, row_frontend]"
    by code_simp
  from alert_route_query_rejected[of "alert_body_role ''Plumber''"
         "[row_backend, row_nurse, row_frontend]" False]
       alert_route_query_rejected[of "alert_body_role ''Engineer''"
         "[row_backend, row_nurse, row_frontend]" False] h[of "''Plumber''"] h[of "''Engineer''"] f
  show ?thesis by simp
qed

section \<open>Page extraction\<close>

subsection \<open>Nodes that throw\<close>

lemma map_filter_append: "List.map_filter f (xs @ ys) = List.map_filter f xs @ List.map_filter f ys"
  by (induction xs) (simp_all add: map_filter_simps split: option.splits)

text \<open>
  The LinkedIn and Shine extractions drop a node whose extraction throws and keep what
  the nodes before and after it give.
\<close>

lemma extractLinkedInJobs_siblings:
  "extractLinkedInJobs clk (before @ node # after) =
     extractLinkedInJobs clk before @
     (case linkedin_job clk node of None \<Rightarrow> [] | Some job \<Rightarrow> [job]) @
     extractLinkedInJobs clk after"
  by (simp add: extractLinkedInJobs_def map_filter_append map_filter_simps split: option.splits)

lemma extractShineJobs_siblings:
  "extractShineJobs clk (before @ node # after) =
     extractShineJobs clk before @
     (case shine_job clk node of None \<Rightarrow> [] | Some job \<Rightarrow> [job]) @
     extractShineJobs clk after"
  by (simp add: extractShineJobs_def map_filter_append map_filter_simps split: option.splits)

text \<open>The Naukri extraction gives one job for every node.\<close>

lemma extractNaukriJobs_length: "length (extractNaukriJobs nodes) = length nodes"
  by (simp add: extractNaukriJobs_def)

text \<open>In the Hirist extraction one throwing node is the result of the page.\<close>

lemma map_throwing_throws:
  "f node = Inl err \<Longrightarrow> \<exists>err'. map_throwing f (before @ node # after) = Inl err'"
  by (induction before) (auto split: sum.splits)

lemma extractHiristJobs_throws:
  "hirist_job clk node = Inl err \<Longrightarrow>
     \<exists>err'. extractHiristJobs clk (before @ node # after) = Inl err'"
  unfolding extractHiristJobs_def by (rule map_throwing_throws)

text \<open>A node in which no selector finds anything gives the sentinel values.\<close>

lemma missing_fields_default:
  "linkedin_job clk \<lparr>lc_title = None, lc_link = None, lc_company = None, lc_location = None,
                      lc_time = None\<rparr> =
     Some \<lparr>title = Some ''N/A'', company = Some ''N/A'', experience = Some ''N/A'',
           location = Some ''N/A'', skills = Some [], salary = Some ''Not specified'',
           link = Some ''#'', source = Some ''LinkedIn'', postedDate = Some ''N/A'',
           scrapedDate = Some (iso_string (now clk))\<rparr>"
  "shine_job clk \<lparr>sc_title = None, sc_link = None, sc_company = None, sc_details = [],
                   sc_posted = None\<rparr> =
     Some \<lparr>title = Some ''N/A'', company = Some ''N/A'', experience = Some ''N/A'',
           location = Some ''N/A'', skills = None, salary = Some ''Not specified'',
           link = Some ''#'', source = Some ''Shine'', postedDate = Some ''N/A'',
           scrapedDate = Some (iso_string (now clk))\<rparr>"
  "naukri_listing clk (naukri_job \<lparr>nc_title = None, nc_company = None, nc_experience = None,
                                    nc_location = None, nc_skills = [], nc_link = None,
                                    nc_day = None\<rparr>) =
     \<lparr>title = Some ''N/A'', company = Some ''N/A'', experience = Some ''N/A'',
      location = Some ''N/A'', skills = Some [], salary = Some ''Not specified'',
      link = Some ''#'', source = Some ''Naukri'', postedDate = Some ''N/A'',
      scrapedDate = Some (iso_string (now clk))\<rparr>"
  "hirist_job clk \<lparr>hc_title = None, hc_link = None, hc_company = None, hc_experience = None,
                    hc_location = None, hc_salary = None, hc_skills = None, hc_date = None\<rparr> =
     Inr \<lparr>title = Some ''N/A'', company = Some ''N/A'', experience = Some ''N/A'',
          location = Some ''N/A'', skills = Some [], salary = Some ''Not specified'',
          link = Some ''#'', source = Some ''Hirist.tech'', postedDate = Some ''N/A'',
          scrapedDate = Some (iso_string (now clk))\<rparr>"
  by (simp_all add: linkedin_job_def linkedin_posted_def shine_job_def shine_posted_def
      naukri_listing_def naukri_job_def hirist_job_def hirist_posted_def relative_date_def
      text_or_def or_default_def toLowerCase_def)

text \<open>
  C5, at the failing input. A Hirist page shows two job nodes; the posting date of the
  second reads \<open>Posted 200000000 days ago\<close>. The date that many days back is outside the
  range of \<open>Date\<close>, \<open>toISOString\<close> throws, and the extraction of the page throws with it:
  the first node, which alone extracts well, is lost. The LinkedIn extraction, given
  the same text, drops that node only.
\<close>

theorem hirist_extraction_aborts:
  "extractHiristJobs clock_mar15 [hirist_plain, hirist_far] = Inl RangeError \<and>
   extractHiristJobs clock_mar15 [hirist_plain] = Inr [hirist_plain_job] \<and>
   extractLinkedInJobs clock_mar15 [linkedin_plain, linkedin_far] = [linkedin_plain_job]"
  by code_simp

theorem hirist_extraction_aborts_witness:
  "extractHiristJobs clock_mar15 [hirist_plain, hirist_far] \<noteq> Inr [hirist_plain_job]"
  using hirist_extraction_aborts by simp

subsection \<open>Relative dates\<close>

lemma match_at_digits:
  "match_at u s = Some ds \<Longrightarrow> ds \<noteq> [] \<and> (\<forall>c \<in> set ds. is_digit c)"
  by (auto simp: match_at_def Let_def split: if_splits dest: set_takeWhileD)

lemma match_unit_digits:
  "match_unit u s = Some ds \<Longrightarrow> ds \<noteq> [] \<and> (\<forall>c \<in> set ds. is_digit c)"
proof (induction s)
  case Nil
  then show ?case by simp
next
  case (Cons c cs)
  then show ?case using match_at_digits[of u "c # cs" ds]
    by (auto split: option.splits)
qed

lemma digit_facts:
  "is_digit c \<Longrightarrow>
     \<not> is_space c \<and> c \<noteq> CHR ''-'' \<and> c \<noteq> CHR ''+'' \<and> c \<noteq> CHR ''x'' \<and> c \<noteq> CHR ''X''"
  by (auto simp: is_digit_def is_space_def)

text \<open>On the digits a pattern captured, \<open>parseInt\<close> is the decimal value.\<close>

lemma parseInt_digits:
  assumes "ds \<noteq> []" "\<forall>c \<in> set ds. is_digit c"
  shows "parseInt ds = Some (digits_value ds)"
proof -
  from assms obtain c cs where ds: "ds = c # cs" by (cases ds) auto
  with assms have c: "is_digit c" by simp
  have nohex: "\<not> prefix ''0x'' ds \<and> \<not> prefix ''0X'' ds"
  proof (cases cs)
    case Nil
    with ds show ?thesis by simp
  next
    case (Cons d cs')
    with ds assms have "is_digit d" by simp
    with digit_facts[of d] ds Cons show ?thesis by auto
  qed
  have tw: "takeWhile is_digit ds = ds" using assms(2) by (simp add: takeWhile_eq_all_conv)
  have "parse_magnitude ds = Some (digits_value ds)"
    using nohex assms(1) by (simp add: parse_magnitude_def Let_def tw)
  with ds c digit_facts[of c] show ?thesis by (simp add: parseInt_def)
qed

lemma from_local_same_offset:
  "same_offset clk d \<Longrightarrow> from_local clk (local_time clk - d) = timeClip (now clk - d)"
  by (simp add: same_offset_def from_local_def local_time_def)

lemma relative_date_cases:
  "(match_unit ''day'' p = Some ds \<longrightarrow>
      relative_date clk p = Some (iso_date (sub_days clk (digits_value ds)))) \<and>
   (match_unit ''day'' p = None \<and> match_unit ''week'' p = Some ws \<longrightarrow>
      relative_date clk p = Some (iso_date (sub_days clk (digits_value ws * 7)))) \<and>
   (match_unit ''day'' p = None \<and> match_unit ''week'' p = None \<and>
    (match_unit ''hour'' p \<noteq> None \<or> match_unit ''minute'' p \<noteq> None) \<longrightarrow>
      relative_date clk p = Some (iso_date (Some (now clk)))) \<and>
   (match_unit ''day'' p = None \<and> match_unit ''week'' p = None \<and>
    match_unit ''hour'' p = None \<and> match_unit ''minute'' p = None \<longrightarrow>
      relative_date clk p = None)"
proof -
  have d: "match_unit ''day'' p = Some ds \<Longrightarrow> parseInt ds = Some (digits_value ds)"
    using match_unit_digits parseInt_digits by blast
  have w: "match_unit ''week'' p = Some ws \<Longrightarrow> parseInt ws = Some (digits_value ws)"
    using match_unit_digits parseInt_digits by blast
  show ?thesis
    using d w by (auto simp: relative_date_def)
qed

lemma linkedin_posted_cases:
  "(js_includes (linkedin_text s) ''hour'' \<longrightarrow>
      linkedin_posted clk (Some s) = toISOString (sub_hours clk (linkedin_amount s))) \<and>
   (\<not> js_includes (linkedin_text s) ''hour'' \<and> js_includes (linkedin_text s) ''day'' \<longrightarrow>
      linkedin_posted clk (Some s) = iso_date (sub_days clk (linkedin_amount s))) \<and>
   (\<not> js_includes (linkedin_text s) ''hour'' \<and> \<not> js_includes (linkedin_text s) ''day'' \<and>
    js_includes (linkedin_text s) ''week'' \<longrightarrow>
      linkedin_posted clk (Some s) = iso_date (sub_days clk (linkedin_amount s * 7))) \<and>
   (\<not> js_includes (linkedin_text s) ''hour'' \<and> \<not> js_includes (linkedin_text s) ''day'' \<and>
    \<not> js_includes (linkedin_text s) ''week'' \<and> js_includes (linkedin_text s) ''month'' \<longrightarrow>
      linkedin_posted clk (Some s) = iso_date (sub_months clk (linkedin_amount s))) \<and>
   (\<not> js_includes (linkedin_text s) ''hour'' \<and> \<not> js_includes (linkedin_text s) ''day'' \<and>
    \<not> js_includes (linkedin_text s) ''week'' \<and> \<not> js_includes (linkedin_text s) ''month'' \<and>
    js_includes (linkedin_text s) ''minute'' \<longrightarrow>
      linkedin_posted clk (Some s) = toISOString (sub_minutes clk (linkedin_amount s))) \<and>
   (\<not> js_includes (linkedin_text s) ''hour'' \<and> \<not> js_includes (linkedin_text s) ''day'' \<and>
    \<not> js_includes (linkedin_text s) ''week'' \<and> \<not> js_includes (linkedin_text s) ''month'' \<and>
    \<not> js_includes (linkedin_text s) ''minute'' \<longrightarrow>
      linkedin_posted clk (Some s) = Inr (trim s))"
  by (simp add: linkedin_posted_def linkedin_text_def linkedin_amount_def Let_def)

lemma shine_posted_cases:
  "(match_unit ''day'' (shine_text s) = Some ds \<longrightarrow>
      shine_posted clk (Some s) = iso_date (sub_days clk (digits_value ds))) \<and>
   (match_unit ''day'' (shine_text s) = None \<and> match_unit ''week'' (shine_text s) = Some ws \<longrightarrow>
      shine_posted clk (Some s) = iso_date (sub_days clk (digits_value ws * 7))) \<and>
   (match_unit ''day'' (shine_text s) = None \<and> match_unit ''week'' (shine_text s) = None \<and>
    (match_unit ''hour'' (shine_text s) \<noteq> None \<or> match_unit ''minute'' (shine_text s) \<noteq> None) \<longrightarrow>
      shine_posted clk (Some s) = iso_date (Some (now clk))) \<and>
   (match_unit ''day'' (shine_text s) = None \<and> match_unit ''week'' (shine_text s) = None \<and>
    match_unit ''hour'' (shine_text s) = None \<and> match_unit ''minute'' (shine_text s) = None \<longrightarrow>
      shine_posted clk (Some s) = Inr (shine_text s))"
proof -
  have "shine_posted clk (Some s) =
      (case relative_date clk (shine_text s) of Some r \<Rightarrow> r | None \<Rightarrow> Inr (shine_text s))"
    unfolding shine_posted_def shine_text_def Let_def by simp
  with relative_date_cases[of "shine_text s" ds clk ws] show ?thesis by simp
qed

lemma two_days_three_hours:
  "linkedin_text ''2 days'' = ''2 days'' \<and> linkedin_amount ''2 days'' = 2 \<and>
   linkedin_text ''3 hours'' = ''3 hours'' \<and> linkedin_amount ''3 hours'' = 3 \<and>
   js_includes ''3 hours'' ''hour'' \<and> \<not> js_includes ''2 days'' ''hour'' \<and>
   js_includes ''2 days'' ''day'' \<and>
   shine_text ''2 days'' = ''2 days'' \<and> shine_text ''3 hours'' = ''3 hours'' \<and>
   match_unit ''day'' ''2 days'' = Some ''2'' \<and> digits_value ''2'' = 2 \<and>
   match_unit ''day'' ''3 hours'' = None \<and> match_unit ''week'' ''3 hours'' = None \<and>
   match_unit ''hour'' ''3 hours'' = Some ''3''"
  by code_simp

text \<open>
  C6, as amended. The conversion differs between the extractors. LinkedIn looks for
  hour, day, week, month and minute, in this order, anywhere in the lower-cased text,
  and moves the local time of the evaluation instant back by the leading integer of the
  text (1 when there is none, or when it is 0): hours and minutes give the instant, in
  full; days, weeks and months give its date. A text with none of the five words is
  passed through, trimmed. Shine matches a number, white space and the unit: days and
  weeks move the local date back by that many days, or seven times as many, and give
  the date; hours and minutes give the date of the evaluation instant itself, nothing
  subtracted; months are not looked for, and a text that matches nothing is passed
  through as cleaned of \<open>Posted\<close> and \<open>ago\<close>. Where the offset of the time zone does not
  change in the way, moving the local time back by hours, minutes or days is the
  instant that long before the evaluation instant: then \<open>2 days\<close> gives the date of the
  instant two days before, in both extractors, and \<open>3 hours\<close> gives the instant three
  hours before in LinkedIn, and today's date in Shine whatever the zone. A date outside
  the range of \<open>Date\<close> makes the conversion throw.
\<close>

theorem relative_date_conversion:
  "(same_offset clk (2 * msPerDay) \<longrightarrow>
      linkedin_posted clk (Some ''2 days'') = iso_date (timeClip (now clk - 2 * msPerDay))) \<and>
   (same_offset clk (3 * msPerHour) \<longrightarrow>
      linkedin_posted clk (Some ''3 hours'') = toISOString (timeClip (now clk - 3 * msPerHour))) \<and>
   (same_offset clk (2 * msPerDay) \<longrightarrow>
      shine_posted clk (Some ''2 days'') = iso_date (timeClip (now clk - 2 * msPerDay))) \<and>
   shine_posted clk (Some ''3 hours'') = iso_date (Some (now clk)) \<and>
   (same_offset clk (n * msPerHour) \<longrightarrow> sub_hours clk n = timeClip (now clk - n * msPerHour)) \<and>
   (same_offset clk (n * msPerMinute) \<longrightarrow>
      sub_minutes clk n = timeClip (now clk - n * msPerMinute)) \<and>
   (same_offset clk (n * msPerDay) \<longrightarrow> sub_days clk n = timeClip (now clk - n * msPerDay)) \<and>
   (js_includes (linkedin_text s) ''hour'' \<longrightarrow>
      linkedin_posted clk (Some s) = toISOString (sub_hours clk (linkedin_amount s))) \<and>
   (\<not> js_includes (linkedin_text s) ''hour'' \<and> js_includes (linkedin_text s) ''day'' \<longrightarrow>
      linkedin_posted clk (Some s) = iso_date (sub_days clk (linkedin_amount s))) \<and>
   (\<not> js_includes (linkedin_text s) ''hour'' \<and> \<not> js_includes (linkedin_text s) ''day'' \<and>
    js_includes (linkedin_text s) ''week'' \<longrightarrow>
      linkedin_posted clk (Some s) = iso_date (sub_days clk (linkedin_amount s * 7))) \<and>
   (\<not> js_includes (linkedin_text s) ''hour'' \<and> \<not> js_includes (linkedin_text s) ''day'' \<and>
    \<not> js_includes (linkedin_text s) ''week'' \<and> js_includes (linkedin_text s) ''month'' \<longrightarrow>
      linkedin_posted clk (Some s) = iso_date (sub_months clk (linkedin_amount s))) \<and>
   (\<not> js_includes (linkedin_text s) ''hour'' \<and> \<not> js_includes (linkedin_text s) ''day'' \<and>
    \<not> js_includes (linkedin_text s) ''week'' \<and> \<not> js_includes (linkedin_text s) ''month'' \<and>
    js_includes (linkedin_text s) ''minute'' \<longrightarrow>
      linkedin_posted clk (Some s) = toISOString (sub_minutes clk (linkedin_amount s))) \<and>
   (\<not> js_includes (linkedin_text s) ''hour'' \<and> \<not> js_includes (linkedin_text s) ''day'' \<and>
    \<not> js_includes (linkedin_text s) ''week'' \<and> \<not> js_includes (linkedin_text s) ''month'' \<and>
    \<not> js_includes (linkedin_text s) ''minute'' \<longrightarrow>
      linkedin_posted clk (Some s) = Inr (trim s)) \<and>
   (match_unit ''day'' (shine_text s) = Some ds \<longrightarrow>
      shine_posted clk (Some s) = iso_date (sub_days clk (digits_value ds))) \<and>
   (match_unit ''day'' (shine_text s) = None \<and> match_unit ''week'' (shine_text s) = Some ws \<longrightarrow>
      shine_posted clk (Some s) = iso_date (sub_days clk (digits_value ws * 7))) \<and>
   (match_unit ''day'' (shine_text s) = None \<and> match_unit ''week'' (shine_text s) = None \<and>
    (match_unit ''hour'' (shine_text s) \<noteq> None \<or> match_unit ''minute'' (shine_text s) \<noteq> None) \<longrightarrow>
      shine_posted clk (Some s) = iso_date (Some (now clk))) \<and>
   (match_unit ''day'' (shine_text s) = None \<and> match_unit ''week'' (shine_text s) = None \<and>
    match_unit ''hour'' (shine_text s) = None \<and> match_unit ''minute'' (shine_text s) = None \<longrightarrow>
      shine_posted clk (Some s) = Inr (shine_text s))"
proof -
  have h: "same_offset clk (n * msPerHour) \<longrightarrow> sub_hours clk n = timeClip (now clk - n * msPerHour)"
    for n using from_local_same_offset by (simp add: sub_hours_def)
  have m: "same_offset clk (n * msPerMinute) \<longrightarrow>
      sub_minutes clk n = timeClip (now clk - n * msPerMinute)"
    using from_local_same_offset by (simp add: sub_minutes_def)
  have y: "same_offset clk (n * msPerDay) \<longrightarrow> sub_days clk n = timeClip (now clk - n * msPerDay)"
    for n using from_local_same_offset by (simp add: sub_days_def)
  have a: "same_offset clk (2 * msPerDay) \<longrightarrow>
      linkedin_posted clk (Some ''2 days'') = iso_date (timeClip (now clk - 2 * msPerDay))"
    using linkedin_posted_cases[of "''2 days''" clk] two_days_three_hours y[of 2] by simp
  have b: "same_offset clk (3 * msPerHour) \<longrightarrow>
      linkedin_posted clk (Some ''3 hours'') = toISOString (timeClip (now clk - 3 * msPerHour))"
    using linkedin_posted_cases[of "''3 hours''" clk] two_days_three_hours h[of 3] by simp
  have c: "same_offset clk (2 * msPerDay) \<longrightarrow>
      shine_posted clk (Some ''2 days'') = iso_date (timeClip (now clk - 2 * msPerDay))"
    using shine_posted_cases[of "''2 days''" "''2''" clk] two_days_three_hours y[of 2] by simp
  have d: "shine_posted clk (Some ''3 hours'') = iso_date (Some (now clk))"
    using shine_posted_cases[of "''3 hours''" _ clk] two_days_three_hours by simp
  from a b c d h[of n] m y[of n] linkedin_posted_cases[of s clk] shine_posted_cases[of s ds clk ws]
  show ?thesis by blast
qed

theorem relative_date_conversion_witness:
  "same_offset clock_mar15 (2 * msPerDay) \<and> same_offset clock_mar15 (3 * msPerHour) \<and>
   same_offset clock_mar15 (5 * msPerMinute) \<and>
   linkedin_posted clock_mar15 (Some ''2 days'') = Inr ''2024-03-13'' \<and>
   linkedin_posted clock_mar15 (Some ''3 hours'') = Inr ''2024-03-14T22:30:00.000Z'' \<and>
   shine_posted clock_mar15 (Some ''2 days'') = Inr ''2024-03-13'' \<and>
   sub_minutes clock_mar15 5 = Some 1710465900000 \<and>
   js_includes (linkedin_text ''3 Hours ago'') ''hour'' \<and>
   linkedin_posted clock_mar15 (Some ''3 Hours ago'') = Inr ''2024-03-14T22:30:00.000Z'' \<and>
   linkedin_posted clock_new_york (Some ''3 Hours ago'') = Inr ''2024-03-10T06:00:00.000Z'' \<and>
   js_includes (linkedin_text '' 2 days ago '') ''day'' \<and>
   linkedin_posted clock_mar15 (Some '' 2 days ago '') = Inr ''2024-03-13'' \<and>
   js_includes (linkedin_text ''1 week ago'') ''week'' \<and>
   linkedin_posted clock_mar15 (Some ''1 week ago'') = Inr ''2024-03-08'' \<and>
   js_includes (linkedin_text ''2 months ago'') ''month'' \<and>
   linkedin_posted clock_mar15 (Some ''2 months ago'') = Inr ''2024-01-15'' \<and>
   js_includes (linkedin_text ''5 minutes ago'') ''minute'' \<and>
   linkedin_posted clock_mar15 (Some ''5 minutes ago'') = Inr ''2024-03-15T01:25:00.000Z'' \<and>
   linkedin_posted clock_mar15 (Some '' Just now '') = Inr ''Just now'' \<and>
   match_unit ''day'' (shine_text ''Posted 2 days ago'') = Some ''2'' \<and>
   shine_posted clock_mar15 (Some ''Posted 2 days ago'') = Inr ''2024-03-13'' \<and>
   match_unit ''week'' (shine_text ''Posted 1 week ago'') = Some ''1'' \<and>
   shine_posted clock_mar15 (Some ''Posted 1 week ago'') = Inr ''2024-03-08'' \<and>
   match_unit ''hour'' (shine_text ''Posted 3 hours ago'') = Some ''3'' \<and>
   shine_posted clock_mar15 (Some ''Posted 3 hours ago'') = Inr ''2024-03-15'' \<and>
   shine_posted clock_mar15 (Some ''Posted 2 months ago'') = Inr ''2 months''"
proof -
  have z: "same_offset clock_mar15 (2 * msPerDay) \<and> same_offset clock_mar15 (3 * msPerHour) \<and>
      same_offset clock_mar15 (5 * msPerMinute)"
    by (simp add: same_offset_def clock_mar15_def)
  have z1: "iso_date (timeClip (now clock_mar15 - 2 * msPerDay)) = Inr ''2024-03-13''"
    by code_simp
  have z2: "toISOString (timeClip (now clock_mar15 - 3 * msPerHour))
              = Inr ''2024-03-14T22:30:00.000Z''" by code_simp
  have z3: "timeClip (now clock_mar15 - 5 * msPerMinute) = Some 1710465900000" by code_simp
  have i: "linkedin_posted clock_mar15 (Some ''2 days'') = Inr ''2024-03-13'' \<and>
      linkedin_posted clock_mar15 (Some ''3 hours'') = Inr ''2024-03-14T22:30:00.000Z'' \<and>
      shine_posted clock_mar15 (Some ''2 days'') = Inr ''2024-03-13'' \<and>
      sub_minutes clock_mar15 5 = Some 1710465900000"
    using relative_date_conversion[of clock_mar15 5] z z1 z2 z3 by simp
  have h1: "js_includes (linkedin_text ''3 Hours ago'') ''hour''" by code_simp
  have v1: "toISOString (sub_hours clock_mar15 (linkedin_amount ''3 Hours ago''))
              = Inr ''2024-03-14T22:30:00.000Z''" by code_simp
  have r1: "linkedin_posted clock_mar15 (Some ''3 Hours ago'') = Inr ''2024-03-14T22:30:00.000Z''"
    using relative_date_conversion[of clock_mar15 _ "''3 Hours ago''"] h1 v1 by simp
  have w1: "toISOString (sub_hours clock_new_york (linkedin_amount ''3 Hours ago''))
              = Inr ''2024-03-10T06:00:00.000Z''" by code_simp
  have q1: "linkedin_posted clock_new_york (Some ''3 Hours ago'') = Inr ''2024-03-10T06:00:00.000Z''"
    using relative_date_conversion[of clock_new_york _ "''3 Hours ago''"] h1 w1 by simp
  have h2: "\<not> js_includes (linkedin_text '' 2 days ago '') ''hour'' \<and>
      js_includes (linkedin_text '' 2 days ago '') ''day''" by code_simp
  have v2: "iso_date (sub_days clock_mar15 (linkedin_amount '' 2 days ago ''))
              = Inr ''2024-03-13''" by code_simp
  have r2: "linkedin_posted clock_mar15 (Some '' 2 days ago '') = Inr ''2024-03-13''"
    using relative_date_conversion[of clock_mar15 _ "'' 2 days ago ''"] h2 v2 by simp
  have h3: "\<not> js_includes (linkedin_text ''1 week ago'') ''hour'' \<and>
      \<not> js_includes (linkedin_text ''1 week ago'') ''day'' \<and>
      js_includes (linkedin_text ''1 week ago'') ''week''" by code_simp
  have v3: "iso_date (sub_days clock_mar15 (linkedin_amount ''1 week ago'' * 7))
              = Inr ''2024-03-08''" by code_simp
  have r3: "linkedin_posted clock_mar15 (Some ''1 week ago'') = Inr ''2024-03-08''"
    using relative_date_conversion[of clock_mar15 _ "''1 week ago''"] h3 v3 by simp
  have h4: "\<not> js_includes (linkedin_text ''2 months ago'') ''hour'' \<and>
      \<not> js_includes (linkedin_text ''2 months ago'') ''day'' \<and>
      \<not> js_includes (linkedin_text ''2 months ago'') ''week'' \<and>
      js_includes (linkedin_text ''2 months ago'') ''month''" by code_simp
  have v4: "iso_date (sub_months clock_mar15 (linkedin_amount ''2 months ago''))
              = Inr ''2024-01-15''" by code_simp
  have r4: "linkedin_posted clock_mar15 (Some ''2 months ago'') = Inr ''2024-01-15''"
    using relative_date_conversion[of clock_mar15 _ "''2 months ago''"] h4 v4 by simp
  have h5: "\<not> js_includes (linkedin_text ''5 minutes ago'') ''hour'' \<and>
      \<not> js_includes (linkedin_text ''5 minutes ago'') ''day'' \<and>
      \<not> js_includes (linkedin_text ''5 minutes ago'') ''week'' \<and>
      \<not> js_includes (linkedin_text ''5 minutes ago'') ''month'' \<and>
      js_includes (linkedin_text ''5 minutes ago'') ''minute''" by code_simp
  have v5: "toISOString (sub_minutes clock_mar15 (linkedin_amount ''5 minutes ago''))
              = Inr ''2024-03-15T01:25:00.000Z''" by code_simp
  have r5: "linkedin_posted clock_mar15 (Some ''5 minutes ago'') = Inr ''2024-03-15T01:25:00.000Z''"
    using relative_date_conversion[of clock_mar15 _ "''5 minutes ago''"] h5 v5 by simp
  have h6: "\<not> js_includes (linkedin_text '' Just now '') ''hour'' \<and>
      \<not> js_includes (linkedin_text '' Just now '') ''day'' \<and>
      \<not> js_includes (linkedin_text '' Just now '') ''week'' \<and>
      \<not> js_includes (linkedin_text '' Just now '') ''month'' \<and>
      \<not> js_includes (linkedin_text '' Just now '') ''minute''" by code_simp
  have v6: "trim '' Just now '' = ''Just now''" by code_simp
  have r6: "linkedin_posted clock_mar15 (Some '' Just now '') = Inr ''Just now''"
    using relative_date_conversion[of clock_mar15 _ "'' Just now ''"] h6 v6 by simp
  have h7: "match_unit ''day'' (shine_text ''Posted 2 days ago'') = Some ''2''" by code_simp
  have v7: "iso_date (sub_days clock_mar15 (digits_value ''2'')) = Inr ''2024-03-13''"
    by code_simp
  have r7: "shine_posted clock_mar15 (Some ''Posted 2 days ago'') = Inr ''2024-03-13''"
    using relative_date_conversion[of clock_mar15 _ "''Posted 2 days ago''" "''2''"] h7 v7 by simp
  have h8: "match_unit ''day'' (shine_text ''Posted 1 week ago'') = None \<and>
      match_unit ''week'' (shine_text ''Posted 1 week ago'') = Some ''1''" by code_simp
  have v8: "iso_date (sub_days clock_mar15 (digits_value ''1'' * 7)) = Inr ''2024-03-08''"
    by code_simp
  have r8: "shine_posted clock_mar15 (Some ''Posted 1 week ago'') = Inr ''2024-03-08''"
    using relative_date_conversion[of clock_mar15 _ "''Posted 1 week ago''" _ "''1''"] h8 v8
    by simp
  have h9: "match_unit ''day'' (shine_text ''Posted 3 hours ago'') = None \<and>
      match_unit ''week'' (shine_text ''Posted 3 hours ago'') = None \<and>
      match_unit ''hour'' (shine_text ''Posted 3 hours ago'') = Some ''3''" by code_simp
  have v9: "iso_date (Some (now clock_mar15)) = Inr ''2024-03-15''" by code_simp
  have r9: "shine_posted clock_mar15 (Some ''Posted 3 hours ago'') = Inr ''2024-03-15''"
    using relative_date_conversion[of clock_mar15 _ "''Posted 3 hours ago''"] h9 v9 by simp
  have h10: "match_unit ''day'' (shine_text ''Posted 2 months ago'') = None \<and>
      match_unit ''week'' (shine_text ''Posted 2 months ago'') = None \<and>
      match_unit ''hour'' (shine_text ''Posted 2 months ago'') = None \<and>
      match_unit ''minute'' (shine_text ''Posted 2 months ago'') = None" by code_simp
  have v10: "shine_text ''Posted 2 months ago'' = ''2 months''" by code_simp
  have r10: "shine_posted clock_mar15 (Some ''Posted 2 months ago'') = Inr ''2 months''"
    using relative_date_conversion[of clock_mar15 _ "''Posted 2 months ago''"] h10 v10 by simp
  from z i h1 r1 q1 h2 r2 h3 r3 h4 r4 h5 r5 r6 h7 r7 h8 r8 h9 r9 r10 show ?thesis by blast
qed

text \<open>
  The claim as it was stated fails in the Shine extraction: at 01:30 on 15 March the
  text \<open>3 hours\<close> gives the date of that day, neither the instant three hours before nor
  its date.
\<close>

theorem shine_hours_not_subtracted:
  "shine_posted clock_mar15 (Some ''3 hours'') = Inr ''2024-03-15'' \<and>
   toISOString (timeClip (now clock_mar15 - 3 * msPerHour)) = Inr ''2024-03-14T22:30:00.000Z''"
  by code_simp

end
